theory Spec2Isabelle
  imports Main
begin

section \<open>Python values that reach the argument marshaller\<close>

text \<open>
  The values stored in the option mapping of \<^verbatim>\<open>_run_uvicorn_in_subprocess\<close> are
  booleans, integers, strings, \<^verbatim>\<open>None\<close> and tuples of such values. An f-string
  \<^verbatim>\<open>f"{v}"\<close> formats a value with \<^verbatim>\<open>str\<close>.
\<close>

datatype atom = ANone | ABool bool | AInt int | AStr string

datatype pyval = Atom atom | Tuple "atom list"

definition digit_char :: "nat \<Rightarrow> char" where
  "digit_char d = ''0123456789'' ! d"

fun str_nat :: "nat \<Rightarrow> string" where
  "str_nat n = (if n < 10 then [digit_char n] else str_nat (n div 10) @ [digit_char (n mod 10)])"

declare str_nat.simps [simp del]

definition str_int :: "int \<Rightarrow> string" where
  "str_int i = (if i < 0 then CHR ''-'' # str_nat (nat (- i)) else str_nat (nat i))"

fun py_str :: "atom \<Rightarrow> string" where
  "py_str ANone = ''None''"
| "py_str (ABool b) = (if b then ''True'' else ''False'')"
| "py_str (AInt i) = str_int i"
| "py_str (AStr s) = s"

section \<open>The argument marshaller: \<^verbatim>\<open>_convert_uvicorn_args\<close>\<close>

text \<open>
  A Python \<^verbatim>\<open>dict\<close> iterates in insertion order, so the mapping is an association
  list. The loop appends to \<^verbatim>\<open>process_args\<close>; the branches are tried in the order of
  the source: \<^verbatim>\<open>isinstance(value, bool)\<close>, then \<^verbatim>\<open>isinstance(value, tuple)\<close>, then
  the rest.
\<close>

type_synonym 'v pydict = "(string \<times> 'v) list"

fun convert_item :: "string list \<Rightarrow> string \<Rightarrow> pyval \<Rightarrow> string list" where
  "convert_item process_args arg (Atom (ABool v)) =
     (if v then process_args @ [''--'' @ arg] else process_args)"
| "convert_item process_args arg (Tuple items) =
     process_args @ map (\<lambda>item. ''--'' @ arg @ ''='' @ py_str item) items"
| "convert_item process_args arg (Atom v) =
     process_args @ [''--'' @ arg @ ''='' @ py_str v]"

fun convert_loop :: "pyval pydict \<Rightarrow> string list \<Rightarrow> string list" where
  "convert_loop [] process_args = process_args"
| "convert_loop ((arg, v) # rest) process_args =
     convert_loop rest (convert_item process_args arg v)"

definition convert_uvicorn_args :: "pyval pydict \<Rightarrow> string list" where
  "convert_uvicorn_args args = convert_loop args []"

text \<open>
  The rules of the specification, written from its words: the tokens one entry of
  the mapping stands for.
\<close>

definition spec_tokens :: "string \<times> pyval \<Rightarrow> string list" where
  "spec_tokens e =
     (case snd e of
        Atom (ABool True) \<Rightarrow> [''--'' @ fst e]
      | Atom (ABool False) \<Rightarrow> []
      | Tuple items \<Rightarrow> map (\<lambda>item. ''--'' @ fst e @ ''='' @ py_str item) items
      | Atom v \<Rightarrow> [''--'' @ fst e @ ''='' @ py_str v])"

text \<open>Assignment \<^verbatim>\<open>d[k] = v\<close>: a present key keeps its place, a new key goes last.\<close>

fun dict_set :: "'v pydict \<Rightarrow> string \<Rightarrow> 'v \<Rightarrow> 'v pydict" where
  "dict_set [] k v = [(k, v)]"
| "dict_set ((k', v') # d) k v =
     (if k' = k then (k, v) # d else (k', v') # dict_set d k v)"

section \<open>Exceptions, events and context managers\<close>

text \<open>
  Exceptions are values. \<open>SystemExit\<close> is what \<^verbatim>\<open>sys.exit\<close> raises,
  \<open>CalledProcessError\<close> what \<^verbatim>\<open>subprocess.run(..., check=True)\<close> raises for a
  non-zero return code (the specification's launch error), \<open>ConfigurationError\<close> what
  the TLS helpers raise, \<open>RuntimeError\<close> what \<^verbatim>\<open>contextlib.contextmanager\<close> raises
  when its generator ends without yielding and what a \<open>StopIteration\<close> that leaves a
  generator becomes, \<open>TypeError\<close> what \<^verbatim>\<open>raise None\<close> gives; \<open>Raised\<close> is any other
  exception, by name.
\<close>

datatype exn =
    SystemExit int
  | CalledProcessError int "string list"
  | ConfigurationError
  | RuntimeError
  | StopIteration
  | TypeError
  | Raised string

text \<open>The attributes of the application object that this command reads and writes.\<close>

record app_view =
  view_debug :: bool
  view_pdb_on_exception :: bool

text \<open>
  What \<^verbatim>\<open>__exit__\<close> of a context manager does when called with the pending exception
  (or none): it returns a value, whose truth suppresses the exception, or it raises.
\<close>

datatype exit_result = Returns bool | Raises exn

record context_manager =
  cm_name :: nat
  cm_enter :: "exn option"
  cm_exit :: "exn option \<Rightarrow> exit_result"

text \<open>
  An entry of \<^verbatim>\<open>app._server_lifespan_managers\<close>: an \<^verbatim>\<open>AbstractContextManager\<close>, or
  a callable that takes the application and returns one (or raises).
\<close>

datatype manager =
    ContextManager context_manager
  | Factory nat "app_view \<Rightarrow> exn + context_manager"

record uvicorn_kwargs =
  uv_app :: string
  uv_host :: string
  uv_port :: int
  uv_fd :: "int option"
  uv_uds :: "string option"
  uv_factory :: bool
  uv_ssl_certfile :: "string option"
  uv_ssl_keyfile :: "string option"

datatype event =
    Print string
  | ConsoleRule string
  | ShowAppInfo
  | CtxObjCalled
  | CreateSslFiles "string option" "string option" string
  | ValidateSslFilePaths "string option" "string option"
  | FactoryCalled nat app_view
  | Enter nat "exn option"
  | Exit nat "exn option"
  | UvicornRun uvicorn_kwargs
  | SubprocessRun "string list"

section \<open>The lifespan supervisor: \<^verbatim>\<open>_server_lifespan\<close>\<close>

text \<open>
  The \<^verbatim>\<open>for\<close> loop inside \<^verbatim>\<open>with ExitStack() as exit_stack\<close>. A manager that is not
  an \<^verbatim>\<open>AbstractContextManager\<close> is called with the application first;
  \<^verbatim>\<open>enter_context\<close> calls \<^verbatim>\<open>__enter__\<close> and pushes \<^verbatim>\<open>__exit__\<close> only when that
  returned. The stack has its top first. The result is the exception that left the
  loop, if any.
\<close>

fun enter_managers ::
  "app_view \<Rightarrow> manager list \<Rightarrow> context_manager list \<Rightarrow> event list
     \<Rightarrow> exn option \<times> context_manager list \<times> event list" where
  "enter_managers app [] stack tr = (None, stack, tr)"
| "enter_managers app (m # ms) stack tr =
     (case (case m of
              ContextManager c \<Rightarrow> (Inr c, tr)
            | Factory n f \<Rightarrow> (f app, tr @ [FactoryCalled n app])) of
        (Inl e, tr1) \<Rightarrow> (Some e, stack, tr1)
      | (Inr c, tr1) \<Rightarrow>
          (case cm_enter c of
             Some e \<Rightarrow> (Some e, stack, tr1 @ [Enter (cm_name c) (Some e)])
           | None \<Rightarrow> enter_managers app ms (c # stack) (tr1 @ [Enter (cm_name c) None])))"

text \<open>
  The \<^verbatim>\<open>while self._exit_callbacks\<close> loop of \<^verbatim>\<open>ExitStack.__exit__\<close>, with its three
  variables \<^verbatim>\<open>exc\<close>, \<^verbatim>\<open>suppressed_exc\<close> and \<^verbatim>\<open>pending_raise\<close>.
\<close>

fun exit_callbacks ::
  "context_manager list \<Rightarrow> exn option \<Rightarrow> bool \<Rightarrow> bool \<Rightarrow> event list
     \<Rightarrow> exn option \<times> bool \<times> bool \<times> event list" where
  "exit_callbacks [] exc suppressed_exc pending_raise tr =
     (exc, suppressed_exc, pending_raise, tr)"
| "exit_callbacks (cb # stack) exc suppressed_exc pending_raise tr =
     (case cm_exit cb exc of
        Returns r \<Rightarrow>
          (if r then exit_callbacks stack None True False (tr @ [Exit (cm_name cb) exc])
           else exit_callbacks stack exc suppressed_exc pending_raise
                  (tr @ [Exit (cm_name cb) exc]))
      | Raises new_exc \<Rightarrow>
          exit_callbacks stack (Some new_exc) suppressed_exc True
            (tr @ [Exit (cm_name cb) exc]))"

definition ExitStack_exit ::
  "context_manager list \<Rightarrow> exn option \<Rightarrow> event list \<Rightarrow> exit_result \<times> event list" where
  "ExitStack_exit stack received tr =
     (case exit_callbacks stack received False False tr of
        (exc, suppressed_exc, pending_raise, tr') \<Rightarrow>
          (if pending_raise
           then (case exc of Some e \<Rightarrow> Raises e | None \<Rightarrow> Raises TypeError)
           else Returns (received \<noteq> None \<and> suppressed_exc),
           tr'))"

text \<open>
  An exception that leaves the frame of a generator: a \<open>StopIteration\<close> is replaced by
  a \<open>RuntimeError\<close>, any other exception passes.
\<close>

definition leaves_generator :: "exn \<Rightarrow> exn" where
  "leaves_generator e = (if e = StopIteration then RuntimeError else e)"

text \<open>
  \<^verbatim>\<open>with _server_lifespan(app): body\<close>. The generator of the context manager runs the
  loop and yields; the body runs only when it yielded. An exception of the loop goes
  through \<^verbatim>\<open>ExitStack.__exit__\<close>: raised again, replaced, or (suppressed) turned into
  the \<open>RuntimeError\<close> of a generator that did not yield; what is raised leaves the
  generator. After the body, its exception (or none) is thrown into the generator and
  goes through \<^verbatim>\<open>ExitStack.__exit__\<close>: an exception raised by a release (a new
  exception) leaves the generator, a suppressed one is gone, and the exception of the
  body that was not suppressed is raised again by the \<^verbatim>\<open>with\<close> statement as it was.
  The body is given by its outcome and its events.
\<close>

definition with_server_lifespan ::
  "app_view \<Rightarrow> manager list \<Rightarrow> exn option \<times> event list \<Rightarrow> event list
     \<Rightarrow> exn option \<times> event list" where
  "with_server_lifespan app managers body tr =
     (case enter_managers app managers [] tr of
        (Some e, stack, tr1) \<Rightarrow>
          (case ExitStack_exit stack (Some e) tr1 of
             (Raises e', tr2) \<Rightarrow> (Some (leaves_generator e'), tr2)
           | (Returns r, tr2) \<Rightarrow>
               (if r then Some RuntimeError else Some (leaves_generator e), tr2))
      | (None, stack, tr1) \<Rightarrow>
          (case ExitStack_exit stack (fst body) (tr1 @ snd body) of
             (Raises e', tr2) \<Rightarrow> (Some (leaves_generator e'), tr2)
           | (Returns r, tr2) \<Rightarrow> (if r then None else fst body, tr2)))"

text \<open>
  The managers that were acquired, in registration order: those before the first one
  whose factory or \<^verbatim>\<open>__enter__\<close> raises.
\<close>

fun acquired :: "app_view \<Rightarrow> manager list \<Rightarrow> context_manager list" where
  "acquired app [] = []"
| "acquired app (ContextManager c # ms) =
     (if cm_enter c = None then c # acquired app ms else [])"
| "acquired app (Factory n f # ms) =
     (case f app of
        Inl e \<Rightarrow> []
      | Inr c \<Rightarrow> (if cm_enter c = None then c # acquired app ms else []))"

definition entered :: "event list \<Rightarrow> nat list" where
  "entered tr = concat (map (\<lambda>ev. case ev of Enter n None \<Rightarrow> [n] | _ \<Rightarrow> []) tr)"

definition exited :: "event list \<Rightarrow> nat list" where
  "exited tr = concat (map (\<lambda>ev. case ev of Exit n x \<Rightarrow> [n] | _ \<Rightarrow> []) tr)"

definition factory_calls :: "event list \<Rightarrow> (nat \<times> app_view) list" where
  "factory_calls tr = concat (map (\<lambda>ev. case ev of FactoryCalled n a \<Rightarrow> [(n, a)] | _ \<Rightarrow> []) tr)"

section \<open>The application, its environment and the command line\<close>

record Litestar =
  app_debug :: bool
  app_pdb_on_exception :: bool
  app_server_lifespan_managers :: "manager list"

definition view_of :: "Litestar \<Rightarrow> app_view" where
  "view_of a = \<lparr>view_debug = app_debug a, view_pdb_on_exception = app_pdb_on_exception a\<rparr>"

text \<open>
  Modelled from the spec: the class \<^verbatim>\<open>LitestarEnv\<close> of \<^verbatim>\<open>litestar.cli._utils\<close> is
  imported, not defined, by the source. These are the attributes that
  \<^verbatim>\<open>run_command\<close> and \<^verbatim>\<open>_run_uvicorn_in_subprocess\<close> read; an attribute that may be
  \<^verbatim>\<open>None\<close> is an option.
\<close>

record LitestarEnv =
  env_app_path :: string
  env_app :: Litestar
  env_host :: "string option"
  env_port :: "int option"
  env_fd :: "int option"
  env_uds :: "string option"
  env_reload :: "bool option"
  env_reload_dirs :: "string list option"
  env_web_concurrency :: "int option"
  env_is_app_factory :: bool
  env_certfile_path :: "string option"
  env_keyfile_path :: "string option"
  env_create_self_signed_cert :: bool

text \<open>
  \<^verbatim>\<open>ctx.obj\<close> is a callable that returns the environment (it may read
  \<^verbatim>\<open>os.environ\<close>, and may raise), or the environment itself.
\<close>

datatype ctx_obj =
    Callable "(string \<Rightarrow> string option) \<Rightarrow> exn + LitestarEnv"
  | Resolved LitestarEnv

text \<open>The parameters of \<^verbatim>\<open>run_command\<close>, as the option decorators pass them.\<close>

record cli =
  cli_reload :: bool
  cli_port :: int
  cli_wc :: int
  cli_host :: string
  cli_fd :: "int option"
  cli_uds :: "string option"
  cli_debug :: bool
  cli_reload_dir :: "string list"
  cli_pdb :: bool
  cli_ssl_certfile :: "string option"
  cli_ssl_keyfile :: "string option"
  cli_create_self_signed_cert :: bool

text \<open>
  The options as typed on the command line, and the defaults that the \<^verbatim>\<open>@option\<close>
  decorators declare for the options that were not given. The parsing library checks
  the types and the range of \<^verbatim>\<open>--web-concurrency\<close> before the command runs; that check
  is not part of the command and is not modelled, so \<open>option_defaults\<close> accepts every
  value.
\<close>

record argv =
  given_reload :: bool
  given_reload_dir :: "string list"
  given_port :: "int option"
  given_wc :: "int option"
  given_host :: "string option"
  given_fd :: "int option"
  given_uds :: "string option"
  given_debug :: bool
  given_pdb :: bool
  given_ssl_certfile :: "string option"
  given_ssl_keyfile :: "string option"
  given_create_self_signed_cert :: bool

definition option_defaults :: "argv \<Rightarrow> cli" where
  "option_defaults a =
     \<lparr>cli_reload = given_reload a,
      cli_port = (case given_port a of None \<Rightarrow> 8000 | Some n \<Rightarrow> n),
      cli_wc = (case given_wc a of None \<Rightarrow> 1 | Some n \<Rightarrow> n),
      cli_host = (case given_host a of None \<Rightarrow> ''127.0.0.1'' | Some h \<Rightarrow> h),
      cli_fd = given_fd a,
      cli_uds = given_uds a,
      cli_debug = given_debug a,
      cli_reload_dir = given_reload_dir a,
      cli_pdb = given_pdb a,
      cli_ssl_certfile = given_ssl_certfile a,
      cli_ssl_keyfile = given_ssl_keyfile a,
      cli_create_self_signed_cert = given_create_self_signed_cert a\<rparr>"

text \<open>
  What the command reads of the world outside: whether uvicorn is importable, the
  process environment, whether \<^verbatim>\<open>sys.gettrace()\<close> is set, the interpreter's path, the
  two TLS helpers of \<^verbatim>\<open>litestar.cli._utils\<close> (not in the source: parameters), what
  \<^verbatim>\<open>uvicorn.run\<close> does (returns, or raises) and the return code of a child process.
\<close>

record world =
  UVICORN_INSTALLED :: bool
  environ :: "string \<Rightarrow> string option"
  gettrace_set :: bool
  sys_executable :: string
  create_ssl_files ::
    "string option \<Rightarrow> string option \<Rightarrow> string \<Rightarrow> exn + (string option \<times> string option)"
  validate_ssl_file_paths ::
    "string option \<Rightarrow> string option \<Rightarrow> exn + (string option \<times> string option)"
  uvicorn_run :: "uvicorn_kwargs \<Rightarrow> exn option"
  subprocess_returncode :: "string list \<Rightarrow> int"

section \<open>The subprocess strategy: \<^verbatim>\<open>_run_uvicorn_in_subprocess\<close>\<close>

record subprocess_kwargs =
  kw_host :: "string option"
  kw_port :: "int option"
  kw_workers :: "int option"
  kw_reload :: bool
  kw_reload_dirs :: "string list option"
  kw_fd :: "int option"
  kw_uds :: "string option"
  kw_certfile_path :: "string option"
  kw_keyfile_path :: "string option"

definition of_str :: "string option \<Rightarrow> pyval" where
  "of_str x = (case x of None \<Rightarrow> Atom ANone | Some s \<Rightarrow> Atom (AStr s))"

definition of_int :: "int option \<Rightarrow> pyval" where
  "of_int x = (case x of None \<Rightarrow> Atom ANone | Some i \<Rightarrow> Atom (AInt i))"

text \<open>The dictionary literal and the five conditional assignments, in source order.\<close>

definition process_args_of :: "LitestarEnv \<Rightarrow> subprocess_kwargs \<Rightarrow> pyval pydict" where
  "process_args_of env kw =
     (let process_args =
            [(''reload'', Atom (ABool (kw_reload kw))),
             (''host'', of_str (kw_host kw)),
             (''port'', of_int (kw_port kw)),
             (''workers'', of_int (kw_workers kw)),
             (''factory'', Atom (ABool (env_is_app_factory env)))];
          process_args =
            (case kw_fd kw of
               Some n \<Rightarrow> dict_set process_args ''fd'' (Atom (AInt n))
             | None \<Rightarrow> process_args);
          process_args =
            (case kw_uds kw of
               Some u \<Rightarrow> dict_set process_args ''uds'' (Atom (AStr u))
             | None \<Rightarrow> process_args);
          process_args =
            (case kw_reload_dirs kw of
               Some (d # ds) \<Rightarrow> dict_set process_args ''reload-dir'' (Tuple (map AStr (d # ds)))
             | _ \<Rightarrow> process_args);
          process_args =
            (case kw_certfile_path kw of
               Some c \<Rightarrow> dict_set process_args ''ssl-certfile'' (Atom (AStr c))
             | None \<Rightarrow> process_args);
          process_args =
            (case kw_keyfile_path kw of
               Some k \<Rightarrow> dict_set process_args ''ssl-keyfile'' (Atom (AStr k))
             | None \<Rightarrow> process_args)
      in process_args)"

definition subprocess_command :: "world \<Rightarrow> LitestarEnv \<Rightarrow> subprocess_kwargs \<Rightarrow> string list" where
  "subprocess_command w env kw =
     [sys_executable w, ''-m'', ''uvicorn'', env_app_path env]
       @ convert_uvicorn_args (process_args_of env kw)"

text \<open>
  \<^verbatim>\<open>subprocess.run(cmd, check=True)\<close> runs the child once, waits for it, and raises
  \<open>CalledProcessError\<close> with the return code when that is not zero.
\<close>

definition subprocess_run_check :: "world \<Rightarrow> string list \<Rightarrow> exn option \<times> event list" where
  "subprocess_run_check w cmd =
     (let returncode = subprocess_returncode w cmd
      in (if returncode \<noteq> 0 then Some (CalledProcessError returncode cmd) else None,
          [SubprocessRun cmd]))"

definition run_uvicorn_in_subprocess ::
  "world \<Rightarrow> LitestarEnv \<Rightarrow> subprocess_kwargs \<Rightarrow> exn option \<times> event list" where
  "run_uvicorn_in_subprocess w env kw = subprocess_run_check w (subprocess_command w env kw)"

section \<open>The run command\<close>

text \<open>
  The resolved configuration: lines 202 to 213 of the source. Python's \<^verbatim>\<open>a or b\<close> is
  \<^verbatim>\<open>a\<close> when \<^verbatim>\<open>a\<close> is truthy (not \<^verbatim>\<open>None\<close>, not empty, not zero, not \<^verbatim>\<open>False\<close>)
  and \<^verbatim>\<open>b\<close> otherwise.
\<close>

record run_config =
  rc_reload_dirs :: "string list"
  rc_host :: string
  rc_port :: int
  rc_fd :: "int option"
  rc_uds :: "string option"
  rc_reload :: bool
  rc_workers :: int
  rc_ssl_certfile :: "string option"
  rc_ssl_keyfile :: "string option"
  rc_create_self_signed_cert :: bool

definition truthy_str :: "string option \<Rightarrow> bool" where
  "truthy_str x = (case x of None \<Rightarrow> False | Some s \<Rightarrow> s \<noteq> [])"

definition truthy_int :: "int option \<Rightarrow> bool" where
  "truthy_int x = (case x of None \<Rightarrow> False | Some i \<Rightarrow> i \<noteq> 0)"

definition truthy_tuple :: "string list option \<Rightarrow> bool" where
  "truthy_tuple x = (case x of None \<Rightarrow> False | Some t \<Rightarrow> t \<noteq> [])"

definition truthy_bool :: "bool option \<Rightarrow> bool" where
  "truthy_bool x = (case x of None \<Rightarrow> False | Some b \<Rightarrow> b)"

definition resolve :: "LitestarEnv \<Rightarrow> cli \<Rightarrow> run_config" where
  "resolve env p =
     (let reload_dirs =
            (case env_reload_dirs env of Some (d # ds) \<Rightarrow> d # ds | _ \<Rightarrow> cli_reload_dir p);
          host = (case env_host env of Some (c # cs) \<Rightarrow> c # cs | _ \<Rightarrow> cli_host p);
          port = (case env_port env of Some n \<Rightarrow> n | None \<Rightarrow> cli_port p);
          fd = (case env_fd env of Some n \<Rightarrow> Some n | None \<Rightarrow> cli_fd p);
          uds = (if truthy_str (env_uds env) then env_uds env else cli_uds p);
          reload = (truthy_bool (env_reload env) \<or> cli_reload p \<or> reload_dirs \<noteq> []);
          workers =
            (case env_web_concurrency env of
               Some n \<Rightarrow> (if n \<noteq> 0 then n else cli_wc p)
             | None \<Rightarrow> cli_wc p);
          ssl_certfile =
            (if truthy_str (cli_ssl_certfile p) then cli_ssl_certfile p
             else env_certfile_path env);
          ssl_keyfile =
            (if truthy_str (cli_ssl_keyfile p) then cli_ssl_keyfile p
             else env_keyfile_path env);
          create_self_signed_cert =
            (cli_create_self_signed_cert p \<or> env_create_self_signed_cert env)
      in \<lparr>rc_reload_dirs = reload_dirs, rc_host = host, rc_port = port, rc_fd = fd,
          rc_uds = uds, rc_reload = reload, rc_workers = workers,
          rc_ssl_certfile = ssl_certfile, rc_ssl_keyfile = ssl_keyfile,
          rc_create_self_signed_cert = create_self_signed_cert\<rparr>)"

definition debugger_warning :: string where
  "debugger_warning =
     ''[yellow]Debugger detected. Breakpoints might not work correctly inside route handlers when running''
     @ '' with the --reload or --workers options[/]''"

text \<open>
  The raw string literal passed to \<^verbatim>\<open>console.print\<close>: it has a backslash (character
  code 92) before the opening bracket.
\<close>

definition uvicorn_not_installed :: string where
  "uvicorn_not_installed =
     ''uvicorn is not installed. Please install the standard group, litestar''
     @ [CHR 0x5C] @ ''[standard], to use this command.''"

text \<open>
  The body of the \<^verbatim>\<open>with\<close> statement (lines 225 to 259): the direct strategy calls
  \<^verbatim>\<open>uvicorn.run\<close> in this process, the other one warns when a tracer is set and runs
  uvicorn in a child process. The keyword arguments of the two calls come first.
\<close>

definition uvicorn_kwargs_of ::
  "LitestarEnv \<Rightarrow> run_config \<Rightarrow> string option \<Rightarrow> string option \<Rightarrow> uvicorn_kwargs" where
  "uvicorn_kwargs_of env cfg certfile_path keyfile_path =
     \<lparr>uv_app = env_app_path env, uv_host = rc_host cfg, uv_port = rc_port cfg,
      uv_fd = rc_fd cfg, uv_uds = rc_uds cfg, uv_factory = env_is_app_factory env,
      uv_ssl_certfile = certfile_path, uv_ssl_keyfile = keyfile_path\<rparr>"

definition subprocess_kwargs_of ::
  "run_config \<Rightarrow> string option \<Rightarrow> string option \<Rightarrow> subprocess_kwargs" where
  "subprocess_kwargs_of cfg certfile_path keyfile_path =
     \<lparr>kw_host = Some (rc_host cfg), kw_port = Some (rc_port cfg),
      kw_workers = Some (rc_workers cfg), kw_reload = rc_reload cfg,
      kw_reload_dirs = Some (rc_reload_dirs cfg), kw_fd = rc_fd cfg, kw_uds = rc_uds cfg,
      kw_certfile_path = certfile_path, kw_keyfile_path = keyfile_path\<rparr>"

definition launch ::
  "world \<Rightarrow> LitestarEnv \<Rightarrow> run_config \<Rightarrow> string option \<Rightarrow> string option
     \<Rightarrow> exn option \<times> event list" where
  "launch w env cfg certfile_path keyfile_path =
     (if rc_workers cfg = 1 \<and> \<not> rc_reload cfg
      then (let kw = uvicorn_kwargs_of env cfg certfile_path keyfile_path
            in (uvicorn_run w kw, [UvicornRun kw]))
      else (case run_uvicorn_in_subprocess w env
                   (subprocess_kwargs_of cfg certfile_path keyfile_path) of
              (r, tr) \<Rightarrow> (r, (if gettrace_set w then [Print debugger_warning] else []) @ tr)))"

record result =
  raised :: "exn option"
  environ_after :: "string \<Rightarrow> string option"
  obj_after :: ctx_obj
  trace :: "event list"

text \<open>
  Lines 215 to 219: the TLS paths come from \<^verbatim>\<open>create_ssl_files\<close> when a self-signed
  certificate is asked for, from \<^verbatim>\<open>validate_ssl_file_paths\<close> otherwise.
\<close>

definition tls_paths ::
  "world \<Rightarrow> run_config \<Rightarrow> (exn + (string option \<times> string option)) \<times> event list" where
  "tls_paths w cfg =
     (if rc_create_self_signed_cert cfg
      then (create_ssl_files w (rc_ssl_certfile cfg) (rc_ssl_keyfile cfg) (rc_host cfg),
            [CreateSslFiles (rc_ssl_certfile cfg) (rc_ssl_keyfile cfg) (rc_host cfg)])
      else (validate_ssl_file_paths w (rc_ssl_certfile cfg) (rc_ssl_keyfile cfg),
            [ValidateSslFilePaths (rc_ssl_certfile cfg) (rc_ssl_keyfile cfg)]))"

text \<open>Lines 199 to 259: resolution, the TLS helpers, then the supervised launch.\<close>

definition serve ::
  "world \<Rightarrow> (string \<Rightarrow> string option) \<Rightarrow> cli \<Rightarrow> LitestarEnv \<Rightarrow> event list \<Rightarrow> result" where
  "serve w environ' p env tr =
     (let cfg = resolve env p;
          tls = tls_paths w cfg
      in case fst tls of
           Inl e \<Rightarrow>
             \<lparr>raised = Some e, environ_after = environ', obj_after = Resolved env,
              trace = tr @ snd tls\<rparr>
         | Inr (certfile_path, keyfile_path) \<Rightarrow>
             (case with_server_lifespan (view_of (env_app env))
                     (app_server_lifespan_managers (env_app env))
                     (launch w env cfg certfile_path keyfile_path)
                     (tr @ snd tls @ [ConsoleRule ''[yellow]Starting server process'', ShowAppInfo]) of
                (r, tr') \<Rightarrow>
                  \<lparr>raised = r, environ_after = environ', obj_after = Resolved env, trace = tr'\<rparr>))"

text \<open>
  Lines 179 to 197, then \<open>serve\<close>. \<^verbatim>\<open>sys.exit(1)\<close> raises \<open>SystemExit 1\<close>; an exception
  of the callable leaves \<^verbatim>\<open>ctx.obj\<close> as it was.
\<close>

definition run_command :: "world \<Rightarrow> cli \<Rightarrow> ctx_obj \<Rightarrow> result" where
  "run_command w p obj =
     (let environ1 =
            (if cli_debug p then (environ w)(''LITESTAR_DEBUG'' \<mapsto> ''1'') else environ w);
          environ2 =
            (if cli_pdb p then environ1(''LITESTAR_PDB'' \<mapsto> ''1'') else environ1)
      in if \<not> UVICORN_INSTALLED w
         then \<lparr>raised = Some (SystemExit 1), environ_after = environ2, obj_after = obj,
               trace = [Print uvicorn_not_installed]\<rparr>
         else (case obj of
                 Callable f \<Rightarrow>
                   (case f environ2 of
                      Inl e \<Rightarrow>
                        \<lparr>raised = Some e, environ_after = environ2, obj_after = obj,
                         trace = [CtxObjCalled]\<rparr>
                    | Inr env \<Rightarrow> serve w environ2 p env [CtxObjCalled])
               | Resolved env \<Rightarrow>
                   (let app1 =
                          (if cli_debug p then (env_app env)\<lparr>app_debug := True\<rparr>
                           else env_app env);
                        app2 =
                          (if cli_pdb p then app1\<lparr>app_pdb_on_exception := True\<rparr> else app1)
                    in serve w environ2 p (env\<lparr>env_app := app2\<rparr>) [])))"

text \<open>The exit code of the process: that of \<open>SystemExit\<close>, zero for a normal return.\<close>

definition exit_code :: "result \<Rightarrow> int option" where
  "exit_code r =
     (case raised r of None \<Rightarrow> Some 0 | Some (SystemExit n) \<Rightarrow> Some n | Some _ \<Rightarrow> None)"

section \<open>Observations on a trace\<close>

datatype strategy = Direct | Subprocess

definition server_starts :: "event list \<Rightarrow> strategy list" where
  "server_starts tr =
     concat (map (\<lambda>ev. case ev of UvicornRun kw \<Rightarrow> [Direct]
                            | SubprocessRun cmd \<Rightarrow> [Subprocess]
                            | _ \<Rightarrow> []) tr)"

definition tls_calls :: "event list \<Rightarrow> event list" where
  "tls_calls tr =
     filter (\<lambda>ev. case ev of CreateSslFiles c k h \<Rightarrow> True
                        | ValidateSslFilePaths c k \<Rightarrow> True
                        | _ \<Rightarrow> False) tr"

definition ctx_calls :: "event list \<Rightarrow> nat" where
  "ctx_calls tr = length (filter (\<lambda>ev. case ev of CtxObjCalled \<Rightarrow> True | _ \<Rightarrow> False) tr)"

definition enter_attempts :: "event list \<Rightarrow> nat list" where
  "enter_attempts tr = concat (map (\<lambda>ev. case ev of Enter n x \<Rightarrow> [n] | _ \<Rightarrow> []) tr)"

definition factories :: "manager list \<Rightarrow> nat list" where
  "factories ms = concat (map (\<lambda>m. case m of Factory n f \<Rightarrow> [n] | _ \<Rightarrow> []) ms)"

definition obj_app :: "ctx_obj \<Rightarrow> Litestar option" where
  "obj_app obj = (case obj of Resolved env \<Rightarrow> Some (env_app env) | Callable f \<Rightarrow> None)"

text \<open>
  The first value that is present, in the order given: the reading of "first non-empty
  value found in priority order" that the resolution is compared with.
\<close>

fun first_present :: "'a option list \<Rightarrow> 'a option" where
  "first_present [] = None"
| "first_present (None # xs) = first_present xs"
| "first_present (Some x # xs) = Some x"

definition nonempty_str :: "string option \<Rightarrow> string option" where
  "nonempty_str x = (if truthy_str x then x else None)"

definition nonzero_int :: "int option \<Rightarrow> int option" where
  "nonzero_int x = (if truthy_int x then x else None)"

definition nonempty_tuple :: "string list option \<Rightarrow> string list option" where
  "nonempty_tuple x = (if truthy_tuple x then x else None)"

section \<open>Concrete inputs\<close>

text \<open>
  Modelled from the spec: \<^verbatim>\<open>validate_ssl_file_paths\<close> of \<^verbatim>\<open>litestar.cli._utils\<close> is
  not in the source. It fails with a configuration error if exactly one of the two
  paths is supplied, or if a supplied path does not exist; it returns
  \<^verbatim>\<open>(None, None)\<close> if both are absent, else both paths unchanged.
\<close>

definition spec_validate_ssl_file_paths ::
  "(string \<Rightarrow> bool) \<Rightarrow> string option \<Rightarrow> string option
     \<Rightarrow> exn + (string option \<times> string option)" where
  "spec_validate_ssl_file_paths exists cert key =
     (case (cert, key) of
        (None, None) \<Rightarrow> Inr (None, None)
      | (Some c, Some k) \<Rightarrow>
          (if exists c \<and> exists k then Inr (Some c, Some k) else Inl ConfigurationError)
      | _ \<Rightarrow> Inl ConfigurationError)"

text \<open>
  Modelled from the spec: \<^verbatim>\<open>create_ssl_files\<close> of \<^verbatim>\<open>litestar.cli._utils\<close> is not in
  the source. It returns the two paths, the given ones or default ones; the files it
  writes are not observed here.
\<close>

definition spec_create_ssl_files ::
  "string \<Rightarrow> string \<Rightarrow> string option \<Rightarrow> string option \<Rightarrow> string
     \<Rightarrow> exn + (string option \<times> string option)" where
  "spec_create_ssl_files default_cert default_key cert key host =
     Inr (Some (case cert of Some c \<Rightarrow> c | None \<Rightarrow> default_cert),
          Some (case key of Some k \<Rightarrow> k | None \<Rightarrow> default_key))"

definition example_world :: world where
  "example_world =
     \<lparr>UVICORN_INSTALLED = True,
      environ = Map.empty,
      gettrace_set = False,
      sys_executable = ''python3'',
      create_ssl_files = spec_create_ssl_files ''cert.pem'' ''key.pem'',
      validate_ssl_file_paths = spec_validate_ssl_file_paths (\<lambda>f. True),
      uvicorn_run = (\<lambda>kw. None),
      subprocess_returncode = (\<lambda>cmd. 0)\<rparr>"

definition nothing_given :: argv where
  "nothing_given =
     \<lparr>given_reload = False, given_reload_dir = [], given_port = None, given_wc = None,
      given_host = None, given_fd = None, given_uds = None, given_debug = False,
      given_pdb = False, given_ssl_certfile = None, given_ssl_keyfile = None,
      given_create_self_signed_cert = False\<rparr>"

definition example_cli :: cli where
  "example_cli = option_defaults nothing_given"

definition example_app :: Litestar where
  "example_app =
     \<lparr>app_debug = False, app_pdb_on_exception = False, app_server_lifespan_managers = []\<rparr>"

definition example_env :: LitestarEnv where
  "example_env =
     \<lparr>env_app_path = ''app:app'', env_app = example_app, env_host = None, env_port = None,
      env_fd = None, env_uds = None, env_reload = None, env_reload_dirs = None,
      env_web_concurrency = None, env_is_app_factory = False, env_certfile_path = None,
      env_keyfile_path = None, env_create_self_signed_cert = False\<rparr>"

definition example_kwargs :: subprocess_kwargs where
  "example_kwargs =
     \<lparr>kw_host = Some ''127.0.0.1'', kw_port = Some 9000, kw_workers = Some 4,
      kw_reload = False, kw_reload_dirs = Some [], kw_fd = None, kw_uds = None,
      kw_certfile_path = None, kw_keyfile_path = None\<rparr>"

text \<open>
  Three lifespan managers \<open>A\<close>, \<open>B\<close>, \<open>C\<close> (named 1, 2, 3): \<open>B\<close> is a factory whose
  context manager raises on release, the others return \<^verbatim>\<open>None\<close> from \<^verbatim>\<open>__exit__\<close>.
\<close>

definition quiet_cm :: "nat \<Rightarrow> context_manager" where
  "quiet_cm n = \<lparr>cm_name = n, cm_enter = None, cm_exit = (\<lambda>x. Returns False)\<rparr>"

definition failing_release_cm :: "nat \<Rightarrow> context_manager" where
  "failing_release_cm n =
     \<lparr>cm_name = n, cm_enter = None, cm_exit = (\<lambda>x. Raises (Raised ''release failed''))\<rparr>"

definition example_managers :: "manager list" where
  "example_managers =
     [ContextManager (quiet_cm 1),
      Factory 2 (\<lambda>a. Inr (failing_release_cm 2)),
      ContextManager (quiet_cm 3)]"

definition example_view :: app_view where
  "example_view = \<lparr>view_debug = False, view_pdb_on_exception = False\<rparr>"

text \<open>
  Two shapes of event lists: the events of acquisition (factory calls with the
  application, and \<^verbatim>\<open>__enter__\<close> calls), and the releases of a stack of context
  managers, top first, each with the exception it was given.
\<close>

definition acquisition_only :: "app_view \<Rightarrow> event list \<Rightarrow> bool" where
  "acquisition_only app A \<longleftrightarrow>
     (\<forall>ev \<in> set A. (\<exists>n. ev = FactoryCalled n app) \<or> (\<exists>n x. ev = Enter n x))"

definition releases :: "context_manager list \<Rightarrow> exn option list \<Rightarrow> event list" where
  "releases stack excs = map (\<lambda>(c, x). Exit (cm_name c) x) (zip stack excs)"

definition server_events :: "event list \<Rightarrow> event list" where
  "server_events tr =
     filter (\<lambda>ev. case ev of UvicornRun kw \<Rightarrow> True
                        | SubprocessRun cmd \<Rightarrow> True
                        | _ \<Rightarrow> False) tr"

definition failing_body :: "exn option \<times> event list" where
  "failing_body =
     (Some (Raised ''server failed''), [SubprocessRun [''python3'', ''-m'', ''uvicorn'', ''app:app'']])"

text \<open>
  A world whose child process exits with status 3, a command line asking for four
  workers, an environment whose application registered one lifespan manager, and a
  command line that sets a file descriptor and a unix socket together.
\<close>

definition failing_child_world :: world where
  "failing_child_world = example_world\<lparr>subprocess_returncode := (\<lambda>cmd. 3)\<rparr>"

definition four_workers_cli :: cli where
  "four_workers_cli = example_cli\<lparr>cli_wc := 4\<rparr>"

definition supervised_env :: LitestarEnv where
  "supervised_env =
     example_env\<lparr>env_app :=
       example_app\<lparr>app_server_lifespan_managers := [ContextManager (quiet_cm 1)]\<rparr>\<rparr>"

definition fd_and_uds_cli :: cli where
  "fd_and_uds_cli = example_cli\<lparr>cli_fd := Some 3, cli_uds := Some ''/tmp/app.sock''\<rparr>"

section \<open>The argument marshaller follows the rules\<close>

lemma convert_item_spec: "convert_item acc arg v = acc @ spec_tokens (arg, v)"
  by (cases "(acc, arg, v)" rule: convert_item.cases)
     (auto simp: spec_tokens_def split: atom.splits)

lemma convert_loop_spec: "convert_loop args acc = acc @ concat (map spec_tokens args)"
  by (induction args arbitrary: acc) (auto simp: convert_item_spec)

lemma convert_uvicorn_args_spec: "convert_uvicorn_args args = concat (map spec_tokens args)"
  by (simp add: convert_uvicorn_args_def convert_loop_spec)

lemma convert_uvicorn_args_append:
  "convert_uvicorn_args (xs @ ys) = convert_uvicorn_args xs @ convert_uvicorn_args ys"
  by (simp add: convert_uvicorn_args_spec)

text \<open>
  Claim C3. For every input mapping the marshaller produces, in the order of the
  mapping, no token for a key whose value is \<^verbatim>\<open>False\<close>, the bare token \<^verbatim>\<open>--name\<close> for
  \<^verbatim>\<open>True\<close>, one token \<^verbatim>\<open>--name=item\<close> per element of a tuple, and the single token
  \<^verbatim>\<open>--name=value\<close> for any other value; the two mappings of the specification give
  the token lists it states.
\<close>

theorem convert_uvicorn_args_rules:
  "convert_uvicorn_args args = concat (map spec_tokens args)
   \<and> convert_uvicorn_args (xs @ (k, Atom (ABool False)) # ys)
       = convert_uvicorn_args xs @ convert_uvicorn_args ys
   \<and> convert_uvicorn_args (xs @ (k, Atom (ABool True)) # ys)
       = convert_uvicorn_args xs @ [''--'' @ k] @ convert_uvicorn_args ys
   \<and> convert_uvicorn_args (xs @ (k, Tuple items) # ys)
       = convert_uvicorn_args xs @ map (\<lambda>item. ''--'' @ k @ ''='' @ py_str item) items
           @ convert_uvicorn_args ys
   \<and> ((\<forall>b. v \<noteq> ABool b) \<longrightarrow>
        convert_uvicorn_args (xs @ (k, Atom v) # ys)
          = convert_uvicorn_args xs @ [''--'' @ k @ ''='' @ py_str v] @ convert_uvicorn_args ys)
   \<and> convert_uvicorn_args
         [(''reload'', Atom (ABool True)), (''host'', Atom (AStr ''0.0.0.0'')),
          (''reload-dir'', Tuple [AStr ''a'', AStr ''b''])]
       = [''--reload'', ''--host=0.0.0.0'', ''--reload-dir=a'', ''--reload-dir=b'']
   \<and> convert_uvicorn_args [(''reload'', Atom (ABool False))] = []"
proof -
  have other: "spec_tokens (k, Atom v) = [''--'' @ k @ ''='' @ py_str v]" if "\<forall>b. v \<noteq> ABool b"
  proof (cases v)
    case (ABool b)
    with that show ?thesis by blast
  qed (simp_all add: spec_tokens_def)
  show ?thesis
    by (simp add: convert_uvicorn_args_spec other) (simp add: spec_tokens_def)
qed

theorem convert_uvicorn_args_rules_witness:
  "(\<forall>b. AInt 8000 \<noteq> ABool b)
   \<and> convert_uvicorn_args ([(''host'', Atom (AStr ''0.0.0.0''))] @ (''port'', Atom (AInt 8000)) # [(''factory'', Atom (ABool False))])
       = convert_uvicorn_args [(''host'', Atom (AStr ''0.0.0.0''))] @ [''--'' @ ''port'' @ ''='' @ py_str (AInt 8000)]
           @ convert_uvicorn_args [(''factory'', Atom (ABool False))]
   \<and> convert_uvicorn_args [(''host'', Atom (AStr ''0.0.0.0'')), (''port'', Atom (AInt 8000)), (''factory'', Atom (ABool False))]
       = [''--host=0.0.0.0'', ''--port=8000'']"
proof -
  have h: "\<forall>b. AInt 8000 \<noteq> ABool b" by simp
  have e: "convert_uvicorn_args [(''host'', Atom (AStr ''0.0.0.0'')), (''port'', Atom (AInt 8000)), (''factory'', Atom (ABool False))]
       = [''--host=0.0.0.0'', ''--port=8000'']"
    by (simp add: convert_uvicorn_args_def str_int_def str_nat.simps digit_char_def)
  from convert_uvicorn_args_rules
         [of "[]" "[(''host'', Atom (AStr ''0.0.0.0''))]" "''port''" "[(''factory'', Atom (ABool False))]" "[]" "AInt 8000"]
  have "convert_uvicorn_args ([(''host'', Atom (AStr ''0.0.0.0''))] @ (''port'', Atom (AInt 8000)) # [(''factory'', Atom (ABool False))])
       = convert_uvicorn_args [(''host'', Atom (AStr ''0.0.0.0''))] @ [''--'' @ ''port'' @ ''='' @ py_str (AInt 8000)]
           @ convert_uvicorn_args [(''factory'', Atom (ABool False))]"
    using h by blast
  with h e show ?thesis by blast
qed

section \<open>The lifespan supervisor releases what it acquired\<close>

lemma acquisition_only_simps [simp]:
  "acquisition_only app []"
  "acquisition_only app (FactoryCalled n app # A) = acquisition_only app A"
  "acquisition_only app (Enter k x # A) = acquisition_only app A"
  by (auto simp: acquisition_only_def)

lemma observations_simps [simp]:
  "entered [] = []" "exited [] = []" "factory_calls [] = []" "factories [] = []"
  "entered (Enter n None # tr) = n # entered tr"
  "entered (Enter n (Some e) # tr) = entered tr"
  "entered (FactoryCalled n app # tr) = entered tr"
  "exited (Enter n x # tr) = exited tr"
  "exited (FactoryCalled n app # tr) = exited tr"
  "factory_calls (Enter n x # tr) = factory_calls tr"
  "factory_calls (FactoryCalled n app # tr) = (n, app) # factory_calls tr"
  "factories (ContextManager c # ms) = factories ms"
  "factories (Factory n f # ms) = n # factories ms"
  by (simp_all add: entered_def exited_def factory_calls_def factories_def)

lemma enter_managers_acquired:
  "enter_managers app ms stack tr = (r, stack', tr') \<Longrightarrow>
     stack' = rev (acquired app ms) @ stack \<and>
     (r = None \<longleftrightarrow> length (acquired app ms) = length ms) \<and>
     (\<exists>A. tr' = tr @ A \<and> entered A = map cm_name (acquired app ms) \<and> exited A = []
          \<and> factory_calls A
              = map (\<lambda>n. (n, app)) (factories (take (Suc (length (acquired app ms))) ms))
          \<and> acquisition_only app A)"
proof (induction ms arbitrary: stack tr)
  case Nil
  then show ?case by auto
next
  case (Cons m ms)
  show ?case
  proof (cases m)
    case (ContextManager c)
    show ?thesis
    proof (cases "cm_enter c")
      case None
      with Cons.prems ContextManager
      have "enter_managers app ms (c # stack) (tr @ [Enter (cm_name c) None]) = (r, stack', tr')"
        by simp
      from Cons.IH[OF this] obtain A where
        "stack' = rev (acquired app ms) @ c # stack"
        "r = None \<longleftrightarrow> length (acquired app ms) = length ms"
        "tr' = (tr @ [Enter (cm_name c) None]) @ A"
        "entered A = map cm_name (acquired app ms)" "exited A = []"
        "factory_calls A = map (\<lambda>n. (n, app)) (factories (take (Suc (length (acquired app ms))) ms))"
        "acquisition_only app A"
        by blast
      with None ContextManager show ?thesis
        by (intro conjI exI[of _ "Enter (cm_name c) None # A"]) simp_all
    next
      case (Some e)
      with Cons.prems ContextManager
      have "r = Some e" "stack' = stack" "tr' = tr @ [Enter (cm_name c) (Some e)]"
        by auto
      moreover have "acquired app (m # ms) = []"
        using ContextManager Some by simp
      ultimately show ?thesis
        using ContextManager
        by (intro conjI exI[of _ "[Enter (cm_name c) (Some e)]"]) simp_all
    qed
  next
    case (Factory n f)
    show ?thesis
    proof (cases "f app")
      case (Inl e)
      with Cons.prems Factory
      have "r = Some e" "stack' = stack" "tr' = tr @ [FactoryCalled n app]"
        by auto
      moreover have "acquired app (m # ms) = []"
        using Factory Inl by simp
      ultimately show ?thesis
        using Factory
        by (intro conjI exI[of _ "[FactoryCalled n app]"]) simp_all
    next
      case (Inr c)
      show ?thesis
      proof (cases "cm_enter c")
        case None
        with Cons.prems Factory Inr
        have "enter_managers app ms (c # stack)
                (tr @ [FactoryCalled n app, Enter (cm_name c) None]) = (r, stack', tr')"
          by simp
        from Cons.IH[OF this] obtain A where
          "stack' = rev (acquired app ms) @ c # stack"
          "r = None \<longleftrightarrow> length (acquired app ms) = length ms"
          "tr' = (tr @ [FactoryCalled n app, Enter (cm_name c) None]) @ A"
          "entered A = map cm_name (acquired app ms)" "exited A = []"
          "factory_calls A = map (\<lambda>n. (n, app)) (factories (take (Suc (length (acquired app ms))) ms))"
          "acquisition_only app A"
          by blast
        with None Factory Inr show ?thesis
          by (intro conjI exI[of _ "FactoryCalled n app # Enter (cm_name c) None # A"]) simp_all
      next
        case (Some e)
        with Cons.prems Factory Inr
        have "r = Some e" "stack' = stack"
          "tr' = tr @ [FactoryCalled n app, Enter (cm_name c) (Some e)]"
          by auto
        moreover have "acquired app (m # ms) = []"
          using Factory Inr Some by simp
        ultimately show ?thesis
          using Factory
          by (intro conjI exI[of _ "[FactoryCalled n app, Enter (cm_name c) (Some e)]"]) simp_all
      qed
    qed
  qed
qed

lemma exit_callbacks_events:
  "exit_callbacks stack exc s p tr = (exc', s', p', tr') \<Longrightarrow>
     \<exists>excs. length excs = length stack \<and> tr' = tr @ releases stack excs"
proof (induction stack arbitrary: exc s p tr)
  case Nil
  then show ?case by (simp add: releases_def)
next
  case (Cons cb stack)
  from Cons.prems obtain exc1 s1 p1 where
    step: "exit_callbacks stack exc1 s1 p1 (tr @ [Exit (cm_name cb) exc]) = (exc', s', p', tr')"
    by (auto split: exit_result.splits if_splits)
  from Cons.IH[OF step] obtain excs where
    "length excs = length stack"
    "tr' = (tr @ [Exit (cm_name cb) exc]) @ releases stack excs"
    by blast
  then have "length (exc # excs) = length (cb # stack) \<and>
     tr' = tr @ releases (cb # stack) (exc # excs)"
    by (simp add: releases_def)
  then show ?case by blast
qed

lemma ExitStack_exit_events:
  "ExitStack_exit stack received tr = (res, tr') \<Longrightarrow>
     \<exists>excs. length excs = length stack \<and> tr' = tr @ releases stack excs"
proof -
  assume a: "ExitStack_exit stack received tr = (res, tr')"
  obtain exc s p t where e: "exit_callbacks stack received False False tr = (exc, s, p, t)"
    by (metis prod_cases4)
  with a have "t = tr'" by (simp add: ExitStack_exit_def)
  with exit_callbacks_events[OF e] show ?thesis by simp
qed

lemma exited_releases:
  "length excs = length stack \<Longrightarrow> exited (releases stack excs) = map cm_name stack"
  by (induction excs stack rule: list_induct2) (simp_all add: releases_def exited_def)

lemma with_server_lifespan_trace:
  "\<exists>A excs.
     snd (with_server_lifespan app ms body tr)
       = tr @ A @ (if length (acquired app ms) = length ms then snd body else [])
           @ releases (rev (acquired app ms)) excs
     \<and> length excs = length (acquired app ms)
     \<and> entered A = map cm_name (acquired app ms)
     \<and> exited A = []
     \<and> factory_calls A
         = map (\<lambda>n. (n, app)) (factories (take (Suc (length (acquired app ms))) ms))
     \<and> acquisition_only app A"
proof -
  obtain r stack tr1 where en: "enter_managers app ms [] tr = (r, stack, tr1)"
    by (metis prod_cases3)
  from enter_managers_acquired[OF en] obtain A where
    st: "stack = rev (acquired app ms)"
    and rn: "r = None \<longleftrightarrow> length (acquired app ms) = length ms"
    and tr1: "tr1 = tr @ A"
    and A: "entered A = map cm_name (acquired app ms)" "exited A = []"
      "factory_calls A = map (\<lambda>n. (n, app)) (factories (take (Suc (length (acquired app ms))) ms))"
      "acquisition_only app A"
    by auto
  show ?thesis
  proof (cases r)
    case None
    obtain res tr2 where ex: "ExitStack_exit stack (fst body) (tr1 @ snd body) = (res, tr2)"
      by (metis surj_pair)
    from ExitStack_exit_events[OF ex] obtain excs where
      "length excs = length stack" "tr2 = (tr1 @ snd body) @ releases stack excs"
      by blast
    moreover have "snd (with_server_lifespan app ms body tr) = tr2"
      using en None ex by (simp add: with_server_lifespan_def split: exit_result.splits)
    ultimately show ?thesis
      using st rn tr1 A None by (intro exI[of _ A] exI[of _ excs]) simp
  next
    case (Some e)
    obtain res tr2 where ex: "ExitStack_exit stack (Some e) tr1 = (res, tr2)"
      by (metis surj_pair)
    from ExitStack_exit_events[OF ex] obtain excs where
      "length excs = length stack" "tr2 = tr1 @ releases stack excs"
      by blast
    moreover have "snd (with_server_lifespan app ms body tr) = tr2"
      using en Some ex by (simp add: with_server_lifespan_def split: exit_result.splits)
    ultimately show ?thesis
      using st rn tr1 A Some by (intro exI[of _ A] exI[of _ excs]) simp
  qed
qed

text \<open>
  Claim C2. For every sequence of registered lifespan managers the supervisor acquires
  them in registration order, calling a factory with the application first, and on
  every exit path (the body returns, the body raises, or the acquisition of a later
  manager fails) it releases exactly the acquired managers, each once, in reverse
  order of acquisition, whatever a release returns or raises. The trace is the events
  of acquisition \<open>A\<close>, then the body when all managers were acquired, then the releases
  \<open>X\<close>.
\<close>

theorem server_lifespan_releases_acquired:
  "\<exists>A X.
     snd (with_server_lifespan app ms body tr)
       = tr @ A @ (if length (acquired app ms) = length ms then snd body else []) @ X
     \<and> entered A = map cm_name (acquired app ms)
     \<and> exited A = []
     \<and> factory_calls A
         = map (\<lambda>n. (n, app)) (factories (take (Suc (length (acquired app ms))) ms))
     \<and> acquisition_only app A
     \<and> (\<exists>excs. length excs = length (acquired app ms)
                \<and> X = releases (rev (acquired app ms)) excs)
     \<and> entered X = []
     \<and> exited X = rev (entered A)"
proof -
  from with_server_lifespan_trace[of app ms body tr] obtain A excs where
    a: "snd (with_server_lifespan app ms body tr)
       = tr @ A @ (if length (acquired app ms) = length ms then snd body else [])
           @ releases (rev (acquired app ms)) excs"
    "length excs = length (acquired app ms)"
    "entered A = map cm_name (acquired app ms)"
    "exited A = []"
    "factory_calls A
         = map (\<lambda>n. (n, app)) (factories (take (Suc (length (acquired app ms))) ms))"
    "acquisition_only app A"
    by blast
  have "entered (releases s x) = []" for s x
    by (induction s arbitrary: x) (auto simp: releases_def entered_def split: list.splits)
  moreover have "exited (releases (rev (acquired app ms)) excs) = rev (entered A)"
    using a(2,3) by (simp add: exited_releases rev_map)
  ultimately show ?thesis
    using a by (intro exI[of _ A] exI[of _ "releases (rev (acquired app ms)) excs"]) auto
qed

theorem server_lifespan_releases_acquired_witness:
  "snd (with_server_lifespan example_view example_managers failing_body [])
     = [Enter 1 None, FactoryCalled 2 example_view, Enter 2 None, Enter 3 None,
        SubprocessRun [''python3'', ''-m'', ''uvicorn'', ''app:app''],
        Exit 3 (Some (Raised ''server failed'')),
        Exit 2 (Some (Raised ''server failed'')),
        Exit 1 (Some (Raised ''release failed''))]
   \<and> map cm_name (acquired example_view example_managers) = [1, 2, 3]
   \<and> (\<exists>A X.
     snd (with_server_lifespan example_view example_managers failing_body [])
       = [] @ A @ (if length (acquired example_view example_managers) = length example_managers
                   then snd failing_body else []) @ X
     \<and> entered A = map cm_name (acquired example_view example_managers)
     \<and> exited A = []
     \<and> factory_calls A
         = map (\<lambda>n. (n, example_view))
             (factories (take (Suc (length (acquired example_view example_managers))) example_managers))
     \<and> acquisition_only example_view A
     \<and> (\<exists>excs. length excs = length (acquired example_view example_managers)
                \<and> X = releases (rev (acquired example_view example_managers)) excs)
     \<and> entered X = []
     \<and> exited X = rev (entered A))"
proof -
  have t: "snd (with_server_lifespan example_view example_managers failing_body [])
     = [Enter 1 None, FactoryCalled 2 example_view, Enter 2 None, Enter 3 None,
        SubprocessRun [''python3'', ''-m'', ''uvicorn'', ''app:app''],
        Exit 3 (Some (Raised ''server failed'')),
        Exit 2 (Some (Raised ''server failed'')),
        Exit 1 (Some (Raised ''release failed''))]"
    by (simp add: with_server_lifespan_def example_managers_def failing_body_def
          quiet_cm_def failing_release_cm_def ExitStack_exit_def)
  have a: "map cm_name (acquired example_view example_managers) = [1, 2, 3]"
    by (simp add: example_managers_def quiet_cm_def failing_release_cm_def)
  show ?thesis
    using t a server_lifespan_releases_acquired
                [of example_view example_managers failing_body "[]"]
    by blast
qed

section \<open>What the events of a run contain\<close>

lemma server_starts_append [simp]:
  "server_starts (xs @ ys) = server_starts xs @ server_starts ys"
  by (simp add: server_starts_def)

lemma server_events_append [simp]:
  "server_events (xs @ ys) = server_events xs @ server_events ys"
  by (simp add: server_events_def)

lemma ctx_calls_append [simp]: "ctx_calls (xs @ ys) = ctx_calls xs + ctx_calls ys"
  by (simp add: ctx_calls_def)

lemma tls_calls_append [simp]: "tls_calls (xs @ ys) = tls_calls xs @ tls_calls ys"
  by (simp add: tls_calls_def)

lemma enter_attempts_append [simp]:
  "enter_attempts (xs @ ys) = enter_attempts xs @ enter_attempts ys"
  by (simp add: enter_attempts_def)

lemma acquisition_only_observed:
  "acquisition_only app A \<Longrightarrow>
     server_starts A = [] \<and> server_events A = [] \<and> ctx_calls A = 0 \<and> tls_calls A = []"
  by (induction A)
     (auto simp: acquisition_only_def server_starts_def server_events_def ctx_calls_def
        tls_calls_def)

lemma releases_simps [simp]:
  "releases [] x = []"
  "releases s [] = []"
  "releases (c # s) (e # x) = Exit (cm_name c) e # releases s x"
  by (simp_all add: releases_def)

lemma releases_observed:
  "server_starts (releases s x) = [] \<and> server_events (releases s x) = []
   \<and> ctx_calls (releases s x) = 0 \<and> tls_calls (releases s x) = []
   \<and> enter_attempts (releases s x) = []"
proof (induction s arbitrary: x)
  case Nil
  show ?case
    by (simp add: server_starts_def server_events_def ctx_calls_def tls_calls_def
          enter_attempts_def)
next
  case (Cons c s)
  show ?case
  proof (cases x)
    case Nil
    then show ?thesis
      by (simp add: server_starts_def server_events_def ctx_calls_def tls_calls_def
            enter_attempts_def)
  next
    case (Cons e x')
    have "server_starts (Exit n e # t) = server_starts t"
      "server_events (Exit n e # t) = server_events t"
      "ctx_calls (Exit n e # t) = ctx_calls t"
      "tls_calls (Exit n e # t) = tls_calls t"
      "enter_attempts (Exit n e # t) = enter_attempts t" for n t
      by (simp_all add: server_starts_def server_events_def ctx_calls_def tls_calls_def
            enter_attempts_def)
    with Cons Cons.IH[of x'] show ?thesis by simp
  qed
qed

lemma launch_observed:
  "server_starts (snd (launch w env cfg c k))
     = [if rc_workers cfg = 1 \<and> \<not> rc_reload cfg then Direct else Subprocess]
   \<and> ctx_calls (snd (launch w env cfg c k)) = 0
   \<and> tls_calls (snd (launch w env cfg c k)) = []
   \<and> enter_attempts (snd (launch w env cfg c k)) = []"
  by (simp add: launch_def run_uvicorn_in_subprocess_def subprocess_run_check_def
        server_starts_def ctx_calls_def tls_calls_def enter_attempts_def Let_def)

lemma observed_Nil [simp]:
  "server_starts [] = []" "server_events [] = []" "ctx_calls [] = 0" "tls_calls [] = []"
  "enter_attempts [] = []"
  by (simp_all add: server_starts_def server_events_def ctx_calls_def tls_calls_def
        enter_attempts_def)

lemma serve_tls_failure:
  "fst (tls_paths w (resolve env p)) = Inl x \<Longrightarrow>
     trace (serve w e p env tr) = tr @ snd (tls_paths w (resolve env p))
     \<and> raised (serve w e p env tr) = Some x"
  by (simp add: serve_def Let_def)

lemma serve_trace:
  "\<exists>A excs.
     trace (serve w e p env tr)
       = tr @ snd (tls_paths w (resolve env p))
           @ (case fst (tls_paths w (resolve env p)) of
                Inl x \<Rightarrow> []
              | Inr ck \<Rightarrow>
                  [ConsoleRule ''[yellow]Starting server process'', ShowAppInfo] @ A
                    @ (if length (acquired (view_of (env_app env))
                                    (app_server_lifespan_managers (env_app env)))
                          = length (app_server_lifespan_managers (env_app env))
                       then snd (launch w env (resolve env p) (fst ck) (snd ck)) else [])
                    @ releases (rev (acquired (view_of (env_app env))
                                       (app_server_lifespan_managers (env_app env)))) excs)
     \<and> acquisition_only (view_of (env_app env)) A"
proof (cases "fst (tls_paths w (resolve env p))")
  case (Inl x)
  then show ?thesis
    by (intro exI[of _ "[]"]) (simp add: serve_def Let_def)
next
  case (Inr ck)
  obtain c k where ck: "ck = (c, k)" by (cases ck)
  let ?v = "view_of (env_app env)"
  let ?ms = "app_server_lifespan_managers (env_app env)"
  let ?tr0 = "tr @ snd (tls_paths w (resolve env p))
                @ [ConsoleRule ''[yellow]Starting server process'', ShowAppInfo]"
  from with_server_lifespan_trace[of ?v ?ms "launch w env (resolve env p) c k" ?tr0]
  obtain A excs where
    a: "snd (with_server_lifespan ?v ?ms (launch w env (resolve env p) c k) ?tr0)
          = ?tr0 @ A @ (if length (acquired ?v ?ms) = length ?ms
                        then snd (launch w env (resolve env p) c k) else [])
              @ releases (rev (acquired ?v ?ms)) excs"
    and b: "acquisition_only ?v A" "entered A = map cm_name (acquired ?v ?ms)"
    by blast
  have "trace (serve w e p env tr)
          = snd (with_server_lifespan ?v ?ms (launch w env (resolve env p) c k) ?tr0)"
    using Inr ck by (simp add: serve_def Let_def split: prod.splits)
  with a b Inr ck show ?thesis
    by (intro exI[of _ A] exI[of _ excs]) simp
qed

lemma launch_server_events:
  "server_events (snd (launch w env cfg c k)) =
     (if rc_workers cfg = 1 \<and> \<not> rc_reload cfg
      then [UvicornRun (uvicorn_kwargs_of env cfg c k)]
      else [SubprocessRun (subprocess_command w env (subprocess_kwargs_of cfg c k))])"
  by (simp add: launch_def run_uvicorn_in_subprocess_def subprocess_run_check_def
        server_events_def Let_def)

lemma launch_outcome:
  "fst (launch w env cfg c k) =
     (if rc_workers cfg = 1 \<and> \<not> rc_reload cfg
      then uvicorn_run w (uvicorn_kwargs_of env cfg c k)
      else fst (run_uvicorn_in_subprocess w env (subprocess_kwargs_of cfg c k)))"
  by (simp add: launch_def Let_def split: prod.splits)

lemma tls_paths_observed:
  "server_starts (snd (tls_paths w cfg)) = [] \<and> server_events (snd (tls_paths w cfg)) = []
   \<and> ctx_calls (snd (tls_paths w cfg)) = 0 \<and> enter_attempts (snd (tls_paths w cfg)) = []
   \<and> length (tls_calls (snd (tls_paths w cfg))) = 1"
  by (simp add: tls_paths_def server_starts_def server_events_def ctx_calls_def
        enter_attempts_def tls_calls_def)

lemma banner_observed:
  "server_starts (ConsoleRule s # ShowAppInfo # t) = server_starts t"
  "server_events (ConsoleRule s # ShowAppInfo # t) = server_events t"
  "ctx_calls (ConsoleRule s # ShowAppInfo # t) = ctx_calls t"
  "tls_calls (ConsoleRule s # ShowAppInfo # t) = tls_calls t"
  by (simp_all add: server_starts_def server_events_def ctx_calls_def tls_calls_def)

lemma serve_ctx_calls: "ctx_calls (trace (serve w e p env tr)) = ctx_calls tr"
proof -
  from serve_trace[of w e p env tr] obtain A excs where
    t: "trace (serve w e p env tr)
       = tr @ snd (tls_paths w (resolve env p))
           @ (case fst (tls_paths w (resolve env p)) of
                Inl x \<Rightarrow> []
              | Inr ck \<Rightarrow>
                  [ConsoleRule ''[yellow]Starting server process'', ShowAppInfo] @ A
                    @ (if length (acquired (view_of (env_app env))
                                    (app_server_lifespan_managers (env_app env)))
                          = length (app_server_lifespan_managers (env_app env))
                       then snd (launch w env (resolve env p) (fst ck) (snd ck)) else [])
                    @ releases (rev (acquired (view_of (env_app env))
                                       (app_server_lifespan_managers (env_app env)))) excs)"
    and a: "acquisition_only (view_of (env_app env)) A"
    by blast
  show ?thesis
    unfolding t
    using acquisition_only_observed[OF a]
    by (simp add: tls_paths_observed banner_observed releases_observed launch_observed
          split: sum.splits)
qed

lemma serve_server_starts:
  "server_starts (trace (serve w e p env tr))
     = server_starts tr
         @ (case fst (tls_paths w (resolve env p)) of
              Inl x \<Rightarrow> []
            | Inr ck \<Rightarrow>
                (if length (acquired (view_of (env_app env))
                              (app_server_lifespan_managers (env_app env)))
                      = length (app_server_lifespan_managers (env_app env))
                 then [if rc_workers (resolve env p) = 1 \<and> \<not> rc_reload (resolve env p)
                       then Direct else Subprocess]
                 else []))"
proof -
  from serve_trace[of w e p env tr] obtain A excs where
    t: "trace (serve w e p env tr)
       = tr @ snd (tls_paths w (resolve env p))
           @ (case fst (tls_paths w (resolve env p)) of
                Inl x \<Rightarrow> []
              | Inr ck \<Rightarrow>
                  [ConsoleRule ''[yellow]Starting server process'', ShowAppInfo] @ A
                    @ (if length (acquired (view_of (env_app env))
                                    (app_server_lifespan_managers (env_app env)))
                          = length (app_server_lifespan_managers (env_app env))
                       then snd (launch w env (resolve env p) (fst ck) (snd ck)) else [])
                    @ releases (rev (acquired (view_of (env_app env))
                                       (app_server_lifespan_managers (env_app env)))) excs)"
    and a: "acquisition_only (view_of (env_app env)) A"
    by blast
  show ?thesis
    unfolding t
    using acquisition_only_observed[OF a]
    by (simp add: tls_paths_observed banner_observed releases_observed launch_observed
          split: sum.splits)
qed

lemma serve_server_events:
  "server_events (trace (serve w e p env tr))
     = server_events tr
         @ (case fst (tls_paths w (resolve env p)) of
              Inl x \<Rightarrow> []
            | Inr ck \<Rightarrow>
                (if length (acquired (view_of (env_app env))
                              (app_server_lifespan_managers (env_app env)))
                      = length (app_server_lifespan_managers (env_app env))
                 then server_events (snd (launch w env (resolve env p) (fst ck) (snd ck)))
                 else []))"
proof -
  from serve_trace[of w e p env tr] obtain A excs where
    t: "trace (serve w e p env tr)
       = tr @ snd (tls_paths w (resolve env p))
           @ (case fst (tls_paths w (resolve env p)) of
                Inl x \<Rightarrow> []
              | Inr ck \<Rightarrow>
                  [ConsoleRule ''[yellow]Starting server process'', ShowAppInfo] @ A
                    @ (if length (acquired (view_of (env_app env))
                                    (app_server_lifespan_managers (env_app env)))
                          = length (app_server_lifespan_managers (env_app env))
                       then snd (launch w env (resolve env p) (fst ck) (snd ck)) else [])
                    @ releases (rev (acquired (view_of (env_app env))
                                       (app_server_lifespan_managers (env_app env)))) excs)"
    and a: "acquisition_only (view_of (env_app env)) A"
    by blast
  show ?thesis
    unfolding t
    using acquisition_only_observed[OF a]
    by (simp add: tls_paths_observed banner_observed releases_observed
          split: sum.splits)
qed

section \<open>The launch strategist\<close>

text \<open>
  Claim C1. For every resolved run configuration the direct in-process strategy is
  chosen if and only if \<open>workers = 1\<close> and \<open>reload\<close> is false; for \<open>workers > 1\<close> or
  \<open>reload\<close> true the subprocess strategy is chosen. The choice is read off the server
  that the launch starts; a run of the command starts no server, or the one so chosen
  for its resolved configuration.
\<close>

theorem launch_strategy_choice:
  "(server_starts (snd (launch w env cfg c k)) = [Direct]
      \<longleftrightarrow> rc_workers cfg = 1 \<and> \<not> rc_reload cfg)
   \<and> (rc_workers cfg > 1 \<or> rc_reload cfg
        \<longrightarrow> server_starts (snd (launch w env cfg c k)) = [Subprocess])
   \<and> (server_starts (snd (launch w env cfg c k)) = [Direct]
        \<or> server_starts (snd (launch w env cfg c k)) = [Subprocess])
   \<and> (server_starts (trace (serve w e p env' [])) = []
        \<or> server_starts (trace (serve w e p env' []))
             = [if rc_workers (resolve env' p) = 1 \<and> \<not> rc_reload (resolve env' p)
                then Direct else Subprocess])"
  by (auto simp: launch_observed serve_server_starts split: sum.splits)

section \<open>Evaluating concrete runs\<close>

lemmas example_defs =
  example_world_def example_cli_def example_env_def example_app_def nothing_given_def
  option_defaults_def spec_validate_ssl_file_paths_def spec_create_ssl_files_def

lemmas run_defs =
  run_command_def serve_def tls_paths_def resolve_def with_server_lifespan_def
  ExitStack_exit_def launch_def run_uvicorn_in_subprocess_def subprocess_run_check_def
  view_of_def truthy_bool_def truthy_str_def Let_def

theorem launch_strategy_choice_witness:
  "(rc_workers (resolve example_env (example_cli\<lparr>cli_wc := 4\<rparr>)) > 1
      \<or> rc_reload (resolve example_env (example_cli\<lparr>cli_wc := 4\<rparr>)))
   \<and> server_starts (snd (launch example_world example_env
          (resolve example_env (example_cli\<lparr>cli_wc := 4\<rparr>)) None None)) = [Subprocess]
   \<and> server_starts (trace (run_command example_world (example_cli\<lparr>cli_wc := 4\<rparr>)
          (Resolved example_env))) = [Subprocess]
   \<and> server_starts (trace (run_command example_world example_cli (Resolved example_env)))
       = [Direct]"
proof -
  have h: "rc_workers (resolve example_env (example_cli\<lparr>cli_wc := 4\<rparr>)) > 1
      \<or> rc_reload (resolve example_env (example_cli\<lparr>cli_wc := 4\<rparr>))"
    by (simp add: example_defs resolve_def)
  from launch_strategy_choice
         [of example_world example_env "resolve example_env (example_cli\<lparr>cli_wc := 4\<rparr>)"
             None None] h
  have a: "server_starts (snd (launch example_world example_env
          (resolve example_env (example_cli\<lparr>cli_wc := 4\<rparr>)) None None)) = [Subprocess]"
    by blast
  have b: "server_starts (trace (run_command example_world (example_cli\<lparr>cli_wc := 4\<rparr>)
          (Resolved example_env))) = [Subprocess]"
    by (simp add: example_defs run_defs server_starts_def)
  have c: "server_starts (trace (run_command example_world example_cli (Resolved example_env)))
       = [Direct]"
    by (simp add: example_defs run_defs server_starts_def)
  from h a b c show ?thesis by blast
qed

section \<open>The missing server runtime\<close>

text \<open>
  Claim C9. If uvicorn is not installed, the run command prints a message for the user
  and exits with code 1; it enters no lifespan manager, calls no TLS helper and starts
  no server (nor does it call the context object).
\<close>

theorem uvicorn_missing_exits:
  "\<not> UVICORN_INSTALLED w \<Longrightarrow>
     raised (run_command w p obj) = Some (SystemExit 1)
   \<and> exit_code (run_command w p obj) = Some 1
   \<and> trace (run_command w p obj) = [Print uvicorn_not_installed]
   \<and> enter_attempts (trace (run_command w p obj)) = []
   \<and> factory_calls (trace (run_command w p obj)) = []
   \<and> tls_calls (trace (run_command w p obj)) = []
   \<and> server_starts (trace (run_command w p obj)) = []
   \<and> ctx_calls (trace (run_command w p obj)) = 0
   \<and> obj_after (run_command w p obj) = obj"
  by (simp add: run_command_def exit_code_def Let_def enter_attempts_def factory_calls_def
        tls_calls_def server_starts_def ctx_calls_def)

theorem uvicorn_missing_exits_witness:
  "\<not> UVICORN_INSTALLED (example_world\<lparr>UVICORN_INSTALLED := False\<rparr>)
   \<and> raised (run_command (example_world\<lparr>UVICORN_INSTALLED := False\<rparr>) example_cli
        (Resolved example_env)) = Some (SystemExit 1)
   \<and> trace (run_command (example_world\<lparr>UVICORN_INSTALLED := False\<rparr>) example_cli
        (Resolved example_env)) = [Print uvicorn_not_installed]
   \<and> server_starts (trace (run_command (example_world\<lparr>UVICORN_INSTALLED := False\<rparr>)
        example_cli (Resolved example_env))) = []"
proof -
  have h: "\<not> UVICORN_INSTALLED (example_world\<lparr>UVICORN_INSTALLED := False\<rparr>)"
    by simp
  from uvicorn_missing_exits[OF h, of example_cli "Resolved example_env"] h
  show ?thesis by blast
qed

section \<open>The context object and the debug flags\<close>

lemma serve_frame:
  "obj_after (serve w e p env tr) = Resolved env \<and> environ_after (serve w e p env tr) = e"
  by (simp add: serve_def Let_def split: sum.splits prod.splits)

lemma run_command_environ:
  "environ_after (run_command w p obj)
     = (\<lambda>k. if k = ''LITESTAR_PDB'' \<and> cli_pdb p then Some ''1''
             else if k = ''LITESTAR_DEBUG'' \<and> cli_debug p then Some ''1''
             else environ w k)"
  by (auto simp: run_command_def Let_def serve_frame fun_eq_iff
        split: ctx_obj.splits sum.splits)

lemma run_command_resolved:
  "UVICORN_INSTALLED w \<Longrightarrow>
     obj_after (run_command w p (Resolved env0))
       = Resolved (env0\<lparr>env_app := (env_app env0)
           \<lparr>app_debug := cli_debug p \<or> app_debug (env_app env0),
            app_pdb_on_exception := cli_pdb p \<or> app_pdb_on_exception (env_app env0)\<rparr>\<rparr>)"
  by (simp add: run_command_def Let_def serve_frame)

text \<open>
  Claim C10, as amended. When uvicorn is installed, a callable context object is called
  exactly once, on the environment in which the variables of the flags are set, and
  its result becomes the context object as it is: the application's \<open>debug\<close> and
  \<open>pdb_on_exception\<close> are what the callable returned, whatever the flags; a context
  object that is already resolved is not called, and its application gets \<open>debug\<close> and
  \<open>pdb_on_exception\<close> set when the flags are. When uvicorn is not installed, the
  context object is neither called nor changed. In every case the environment
  variables are set when the flags are.
\<close>

theorem ctx_obj_called_once:
  "ctx_calls (trace (run_command w p (Callable f))) = (if UVICORN_INSTALLED w then 1 else 0)
   \<and> (UVICORN_INSTALLED w \<longrightarrow>
        (case f (environ_after (run_command w p (Callable f))) of
           Inr env \<Rightarrow> obj_after (run_command w p (Callable f)) = Resolved env
         | Inl x \<Rightarrow> obj_after (run_command w p (Callable f)) = Callable f
                     \<and> raised (run_command w p (Callable f)) = Some x))
   \<and> ctx_calls (trace (run_command w p (Resolved env0))) = 0
   \<and> obj_app (obj_after (run_command w p (Resolved env0)))
       = Some (if UVICORN_INSTALLED w
               then (env_app env0)
                      \<lparr>app_debug := cli_debug p \<or> app_debug (env_app env0),
                       app_pdb_on_exception := cli_pdb p \<or> app_pdb_on_exception (env_app env0)\<rparr>
               else env_app env0)
   \<and> (\<not> UVICORN_INSTALLED w \<longrightarrow> obj_after (run_command w p obj) = obj)
   \<and> environ_after (run_command w p obj)
       = (\<lambda>k. if k = ''LITESTAR_PDB'' \<and> cli_pdb p then Some ''1''
               else if k = ''LITESTAR_DEBUG'' \<and> cli_debug p then Some ''1''
               else environ w k)"
proof -
  have a: "ctx_calls (trace (run_command w p (Callable f)))
             = (if UVICORN_INSTALLED w then 1 else 0)"
    by (simp add: run_command_def Let_def serve_ctx_calls split: sum.splits)
       (simp add: ctx_calls_def)
  have b: "UVICORN_INSTALLED w \<longrightarrow>
        (case f (environ_after (run_command w p (Callable f))) of
           Inr env \<Rightarrow> obj_after (run_command w p (Callable f)) = Resolved env
         | Inl x \<Rightarrow> obj_after (run_command w p (Callable f)) = Callable f
                     \<and> raised (run_command w p (Callable f)) = Some x)"
  proof (cases "cli_debug p"; cases "cli_pdb p")
  qed (simp_all add: run_command_def Let_def serve_frame split: sum.splits)
  have c: "ctx_calls (trace (run_command w p (Resolved env0))) = 0"
    by (simp add: run_command_def Let_def serve_ctx_calls) (simp add: ctx_calls_def)
  have d: "obj_app (obj_after (run_command w p (Resolved env0)))
       = Some (if UVICORN_INSTALLED w
               then (env_app env0)
                      \<lparr>app_debug := cli_debug p \<or> app_debug (env_app env0),
                       app_pdb_on_exception := cli_pdb p \<or> app_pdb_on_exception (env_app env0)\<rparr>
               else env_app env0)"
  proof (cases "UVICORN_INSTALLED w")
    case True
    then show ?thesis by (simp add: run_command_resolved obj_app_def)
  next
    case False
    then show ?thesis by (simp add: run_command_def Let_def obj_app_def)
  qed
  have e: "\<not> UVICORN_INSTALLED w \<longrightarrow> obj_after (run_command w p obj) = obj"
    by (simp add: run_command_def Let_def)
  from a b c d e run_command_environ[of w p obj] show ?thesis by blast
qed

theorem ctx_obj_called_once_witness:
  "UVICORN_INSTALLED example_world
   \<and> ctx_calls (trace (run_command example_world (example_cli\<lparr>cli_debug := True\<rparr>)
        (Callable (\<lambda>e. Inr example_env)))) = 1
   \<and> obj_after (run_command example_world (example_cli\<lparr>cli_debug := True\<rparr>)
        (Callable (\<lambda>e. Inr example_env))) = Resolved example_env
   \<and> obj_app (obj_after (run_command example_world (example_cli\<lparr>cli_debug := True\<rparr>)
        (Resolved example_env))) = Some (example_app\<lparr>app_debug := True\<rparr>)"
proof -
  have h: "UVICORN_INSTALLED example_world" by (simp add: example_world_def)
  have g: "\<not> cli_pdb (example_cli\<lparr>cli_debug := True\<rparr>)"
    "cli_debug (example_cli\<lparr>cli_debug := True\<rparr>)"
    "env_app example_env = example_app" "\<not> app_pdb_on_exception example_app"
    by (simp_all add: example_defs)
  from ctx_obj_called_once
         [of example_world "example_cli\<lparr>cli_debug := True\<rparr>" "\<lambda>e. Inr example_env"
             example_env "Resolved example_env"] h g
  show ?thesis by simp
qed

text \<open>
  Without the condition on uvicorn the statement fails: with uvicorn missing and
  \<^verbatim>\<open>--debug\<close> given, a callable context object is called zero times, and a resolved
  one keeps \<open>debug = False\<close> although it is not callable.
\<close>

theorem ctx_obj_not_called_counterexample:
  "ctx_calls (trace (run_command (example_world\<lparr>UVICORN_INSTALLED := False\<rparr>)
        (example_cli\<lparr>cli_debug := True\<rparr>) (Callable (\<lambda>e. Inr example_env)))) = 0
   \<and> obj_app (obj_after (run_command (example_world\<lparr>UVICORN_INSTALLED := False\<rparr>)
        (example_cli\<lparr>cli_debug := True\<rparr>) (Resolved example_env))) = Some example_app
   \<and> \<not> app_debug example_app"
  by (simp add: run_command_def Let_def ctx_calls_def obj_app_def example_defs)

section \<open>Resolution of the run configuration\<close>

text \<open>
  Claim C6, as amended. For \<open>reload\<close> the resolved value is the disjunction of the
  value of the environment, the flag and the presence of reload directories (from the
  environment or the command line); for \<open>create-self-signed-cert\<close> it is the disjunction
  of the flag and the value of the environment. For \<open>debug\<close> the command keeps no single
  resolved value: the flag is joined by disjunction to each place on its own. The
  variable \<^verbatim>\<open>LITESTAR_DEBUG\<close> is \<^verbatim>\<open>1\<close> after the command exactly when the flag is set
  or it was \<^verbatim>\<open>1\<close> before. The \<open>debug\<close> attribute of an already resolved application is
  the flag or its previous value when uvicorn is installed and its previous value when
  it is not; the application of a callable context object is what the callable
  returned. The command carries neither the variable to the attribute nor the
  attribute to the variable.
\<close>

theorem boolean_flags_or:
  "rc_reload (resolve env p)
     = (truthy_bool (env_reload env) \<or> cli_reload p \<or> rc_reload_dirs (resolve env p) \<noteq> [])
   \<and> (rc_reload_dirs (resolve env p) \<noteq> []
        \<longleftrightarrow> truthy_tuple (env_reload_dirs env) \<or> cli_reload_dir p \<noteq> [])
   \<and> rc_create_self_signed_cert (resolve env p)
       = (cli_create_self_signed_cert p \<or> env_create_self_signed_cert env)
   \<and> (environ_after (run_command w p obj) ''LITESTAR_DEBUG'' = Some ''1''
        \<longleftrightarrow> cli_debug p \<or> environ w ''LITESTAR_DEBUG'' = Some ''1'')
   \<and> map_option app_debug (obj_app (obj_after (run_command w p (Resolved env))))
       = Some (if UVICORN_INSTALLED w then cli_debug p \<or> app_debug (env_app env)
               else app_debug (env_app env))
   \<and> (UVICORN_INSTALLED w \<longrightarrow>
        (case f (environ_after (run_command w p (Callable f))) of
           Inr env' \<Rightarrow>
             obj_app (obj_after (run_command w p (Callable f))) = Some (env_app env')
         | Inl x \<Rightarrow> obj_app (obj_after (run_command w p (Callable f))) = None))
   \<and> (\<not> UVICORN_INSTALLED w \<longrightarrow>
        obj_app (obj_after (run_command w p (Callable f))) = None)"
proof -
  have a: "rc_reload (resolve env p)
     = (truthy_bool (env_reload env) \<or> cli_reload p \<or> rc_reload_dirs (resolve env p) \<noteq> [])"
    by (simp add: resolve_def Let_def)
  have b: "rc_reload_dirs (resolve env p) \<noteq> []
        \<longleftrightarrow> truthy_tuple (env_reload_dirs env) \<or> cli_reload_dir p \<noteq> []"
    by (simp add: resolve_def Let_def truthy_tuple_def split: option.splits list.splits)
  have c: "rc_create_self_signed_cert (resolve env p)
       = (cli_create_self_signed_cert p \<or> env_create_self_signed_cert env)"
    by (simp add: resolve_def Let_def)
  have d: "environ_after (run_command w p obj) ''LITESTAR_DEBUG'' = Some ''1''
        \<longleftrightarrow> cli_debug p \<or> environ w ''LITESTAR_DEBUG'' = Some ''1''"
    by (simp add: run_command_environ)
  have e: "map_option app_debug (obj_app (obj_after (run_command w p (Resolved env))))
       = Some (if UVICORN_INSTALLED w then cli_debug p \<or> app_debug (env_app env)
               else app_debug (env_app env))"
  proof (cases "UVICORN_INSTALLED w")
    case True
    then show ?thesis by (simp add: run_command_resolved obj_app_def)
  next
    case False
    then show ?thesis by (simp add: run_command_def Let_def obj_app_def)
  qed
  have g: "UVICORN_INSTALLED w \<longrightarrow>
        (case f (environ_after (run_command w p (Callable f))) of
           Inr env' \<Rightarrow>
             obj_app (obj_after (run_command w p (Callable f))) = Some (env_app env')
         | Inl x \<Rightarrow> obj_app (obj_after (run_command w p (Callable f))) = None)"
  proof (cases "cli_debug p"; cases "cli_pdb p")
  qed (simp_all add: run_command_def Let_def serve_frame obj_app_def split: sum.splits)
  have h: "\<not> UVICORN_INSTALLED w \<longrightarrow>
        obj_app (obj_after (run_command w p (Callable f))) = None"
    by (simp add: run_command_def Let_def obj_app_def)
  from a b c d e g h show ?thesis by blast
qed

theorem boolean_flags_or_witness:
  "UVICORN_INSTALLED example_world
   \<and> map_option app_debug (obj_app (obj_after (run_command example_world
         (example_cli\<lparr>cli_debug := True\<rparr>) (Resolved example_env)))) = Some True
   \<and> obj_app (obj_after (run_command example_world (example_cli\<lparr>cli_debug := True\<rparr>)
         (Callable (\<lambda>e. Inr example_env)))) = Some example_app
   \<and> rc_reload (resolve (example_env\<lparr>env_reload_dirs := Some [''src'']\<rparr>) example_cli)
   \<and> \<not> rc_reload (resolve example_env example_cli)"
proof -
  have h: "UVICORN_INSTALLED example_world" by (simp add: example_world_def)
  have g: "cli_debug (example_cli\<lparr>cli_debug := True\<rparr>)" "env_app example_env = example_app"
    by (simp_all add: example_defs)
  have r: "rc_reload (resolve (example_env\<lparr>env_reload_dirs := Some [''src'']\<rparr>) example_cli)"
    "\<not> rc_reload (resolve example_env example_cli)"
    by (simp_all add: resolve_def example_defs truthy_bool_def Let_def)
  from boolean_flags_or
         [of example_env "example_cli\<lparr>cli_debug := True\<rparr>" example_world
             "Resolved example_env" "\<lambda>e. Inr example_env"]
       h g r
  show ?thesis by simp
qed

text \<open>
  With one value that is the disjunction of all sources the statement fails for
  \<open>debug\<close>. With uvicorn installed and no flag, the variable \<^verbatim>\<open>LITESTAR_DEBUG=1\<close> leaves
  the \<open>debug\<close> attribute of a resolved application false, and an application whose
  \<open>debug\<close> is true leaves the variable unset; with uvicorn missing, \<^verbatim>\<open>--debug\<close> leaves the
  attribute false.
\<close>

theorem debug_sources_not_joined_counterexample:
  "map_option app_debug (obj_app (obj_after
       (run_command (example_world\<lparr>environ := [''LITESTAR_DEBUG'' \<mapsto> ''1'']\<rparr>) example_cli
          (Resolved example_env)))) = Some False
   \<and> environ_after
         (run_command example_world example_cli
            (Resolved (example_env\<lparr>env_app := example_app\<lparr>app_debug := True\<rparr>\<rparr>)))
         ''LITESTAR_DEBUG'' = None
   \<and> map_option app_debug (obj_app (obj_after
         (run_command (example_world\<lparr>UVICORN_INSTALLED := False\<rparr>)
            (example_cli\<lparr>cli_debug := True\<rparr>) (Resolved example_env)))) = Some False"
proof -
  have i: "UVICORN_INSTALLED (example_world\<lparr>environ := [''LITESTAR_DEBUG'' \<mapsto> ''1'']\<rparr>)"
    by (simp add: example_world_def)
  have f: "\<not> cli_debug example_cli" "\<not> cli_pdb example_cli"
    "\<not> app_debug (env_app example_env)" "environ example_world ''LITESTAR_DEBUG'' = None"
    by (simp_all add: example_defs)
  have a: "map_option app_debug (obj_app (obj_after
       (run_command (example_world\<lparr>environ := [''LITESTAR_DEBUG'' \<mapsto> ''1'']\<rparr>) example_cli
          (Resolved example_env)))) = Some False"
    by (simp add: run_command_resolved[OF i] obj_app_def f)
  have b: "environ_after
         (run_command example_world example_cli
            (Resolved (example_env\<lparr>env_app := example_app\<lparr>app_debug := True\<rparr>\<rparr>)))
         ''LITESTAR_DEBUG'' = None"
    by (simp add: run_command_environ f)
  have c: "map_option app_debug (obj_app (obj_after
         (run_command (example_world\<lparr>UVICORN_INSTALLED := False\<rparr>)
            (example_cli\<lparr>cli_debug := True\<rparr>) (Resolved example_env)))) = Some False"
    by (simp add: run_command_def Let_def obj_app_def f)
  from a b c show ?thesis by blast
qed

text \<open>
  Claim C5, as amended. For host, port, file descriptor, unix socket, worker count and
  reload directories the resolved value is the value of the environment/context object
  when it is non-empty (for port and file descriptor: when it is not \<^verbatim>\<open>None\<close>), else the
  value of the command-line option when given, else the default declared for the
  option; for the TLS certificate and key paths the order is the other way round: the
  command-line option when non-empty, else the value of the environment/context object.
\<close>

theorem resolution_priority:
  "Some (rc_host (resolve env (option_defaults a)))
     = first_present [nonempty_str (env_host env), given_host a, Some ''127.0.0.1'']
   \<and> Some (rc_port (resolve env (option_defaults a)))
       = first_present [env_port env, given_port a, Some 8000]
   \<and> rc_fd (resolve env (option_defaults a)) = first_present [env_fd env, given_fd a]
   \<and> rc_uds (resolve env (option_defaults a))
       = first_present [nonempty_str (env_uds env), given_uds a]
   \<and> Some (rc_workers (resolve env (option_defaults a)))
       = first_present [nonzero_int (env_web_concurrency env), given_wc a, Some 1]
   \<and> Some (rc_reload_dirs (resolve env (option_defaults a)))
       = first_present [nonempty_tuple (env_reload_dirs env), Some (given_reload_dir a)]
   \<and> rc_ssl_certfile (resolve env (option_defaults a))
       = first_present [nonempty_str (given_ssl_certfile a), env_certfile_path env]
   \<and> rc_ssl_keyfile (resolve env (option_defaults a))
       = first_present [nonempty_str (given_ssl_keyfile a), env_keyfile_path env]"
proof -
  have host: "Some (rc_host (resolve env (option_defaults a)))
     = first_present [nonempty_str (env_host env), given_host a, Some ''127.0.0.1'']"
    by (simp add: resolve_def option_defaults_def Let_def nonempty_str_def truthy_str_def
          split: option.splits list.splits)
  have port: "Some (rc_port (resolve env (option_defaults a)))
       = first_present [env_port env, given_port a, Some 8000]"
    by (simp add: resolve_def option_defaults_def Let_def split: option.splits)
  have fd: "rc_fd (resolve env (option_defaults a)) = first_present [env_fd env, given_fd a]"
    by (cases "given_fd a")
       (simp_all add: resolve_def option_defaults_def Let_def split: option.splits)
  have uds: "rc_uds (resolve env (option_defaults a))
       = first_present [nonempty_str (env_uds env), given_uds a]"
    by (cases "given_uds a")
       (simp_all add: resolve_def option_defaults_def Let_def nonempty_str_def truthy_str_def
          split: option.splits)
  have workers: "Some (rc_workers (resolve env (option_defaults a)))
       = first_present [nonzero_int (env_web_concurrency env), given_wc a, Some 1]"
    by (simp add: resolve_def option_defaults_def Let_def nonzero_int_def truthy_int_def
          split: option.splits)
  have dirs: "Some (rc_reload_dirs (resolve env (option_defaults a)))
       = first_present [nonempty_tuple (env_reload_dirs env), Some (given_reload_dir a)]"
    by (simp add: resolve_def option_defaults_def Let_def nonempty_tuple_def truthy_tuple_def
          split: option.splits list.splits)
  have cert: "rc_ssl_certfile (resolve env (option_defaults a))
       = first_present [nonempty_str (given_ssl_certfile a), env_certfile_path env]"
    by (cases "env_certfile_path env")
       (simp_all add: resolve_def option_defaults_def Let_def nonempty_str_def truthy_str_def
          split: option.splits)
  have key: "rc_ssl_keyfile (resolve env (option_defaults a))
       = first_present [nonempty_str (given_ssl_keyfile a), env_keyfile_path env]"
    by (cases "env_keyfile_path env")
       (simp_all add: resolve_def option_defaults_def Let_def nonempty_str_def truthy_str_def
          split: option.splits)
  from host port fd uds workers dirs cert key show ?thesis by blast
qed

theorem resolution_priority_witness:
  "rc_host (resolve (example_env\<lparr>env_host := Some ''0.0.0.0''\<rparr>)
      (option_defaults (nothing_given\<lparr>given_host := Some ''10.0.0.1''\<rparr>))) = ''0.0.0.0''
   \<and> rc_port (resolve example_env (option_defaults nothing_given)) = 8000
   \<and> rc_ssl_certfile (resolve (example_env\<lparr>env_certfile_path := Some ''env.pem''\<rparr>)
        (option_defaults (nothing_given\<lparr>given_ssl_certfile := Some ''cli.pem''\<rparr>)))
       = Some ''cli.pem''"
proof -
  have g: "env_host (example_env\<lparr>env_host := Some ''0.0.0.0''\<rparr>) = Some ''0.0.0.0''"
    "env_port example_env = None" "given_port nothing_given = None"
    "given_ssl_certfile (nothing_given\<lparr>given_ssl_certfile := Some ''cli.pem''\<rparr>) = Some ''cli.pem''"
    by (simp_all add: example_defs)
  from resolution_priority
         [of "example_env\<lparr>env_host := Some ''0.0.0.0''\<rparr>"
             "nothing_given\<lparr>given_host := Some ''10.0.0.1''\<rparr>"]
  have a: "rc_host (resolve (example_env\<lparr>env_host := Some ''0.0.0.0''\<rparr>)
      (option_defaults (nothing_given\<lparr>given_host := Some ''10.0.0.1''\<rparr>))) = ''0.0.0.0''"
    using g by (simp add: nonempty_str_def truthy_str_def)
  from resolution_priority[of example_env nothing_given]
  have b: "rc_port (resolve example_env (option_defaults nothing_given)) = 8000"
    using g by simp
  from resolution_priority
         [of "example_env\<lparr>env_certfile_path := Some ''env.pem''\<rparr>"
             "nothing_given\<lparr>given_ssl_certfile := Some ''cli.pem''\<rparr>"]
  have c: "rc_ssl_certfile (resolve (example_env\<lparr>env_certfile_path := Some ''env.pem''\<rparr>)
        (option_defaults (nothing_given\<lparr>given_ssl_certfile := Some ''cli.pem''\<rparr>)))
       = Some ''cli.pem''"
    using g by (simp add: nonempty_str_def truthy_str_def)
  from a b c show ?thesis by blast
qed

text \<open>
  With the environment first for every field the statement fails: for the certificate
  path \<^verbatim>\<open>env.pem\<close> of the environment and \<^verbatim>\<open>--ssl-certfile cli.pem\<close> the resolved
  path is \<^verbatim>\<open>cli.pem\<close>.
\<close>

theorem tls_paths_priority_counterexample:
  "rc_ssl_certfile (resolve (example_env\<lparr>env_certfile_path := Some ''env.pem''\<rparr>)
        (option_defaults (nothing_given\<lparr>given_ssl_certfile := Some ''cli.pem''\<rparr>)))
     = Some ''cli.pem''
   \<and> rc_ssl_certfile (resolve (example_env\<lparr>env_certfile_path := Some ''env.pem''\<rparr>)
        (option_defaults (nothing_given\<lparr>given_ssl_certfile := Some ''cli.pem''\<rparr>)))
     \<noteq> first_present
          [nonempty_str (env_certfile_path (example_env\<lparr>env_certfile_path := Some ''env.pem''\<rparr>)),
           given_ssl_certfile (nothing_given\<lparr>given_ssl_certfile := Some ''cli.pem''\<rparr>),
           None]"
  by (simp add: resolve_def example_defs truthy_str_def nonempty_str_def Let_def)

section \<open>The subprocess strategy\<close>

lemma dict_set_fresh: "k \<notin> fst ` set d \<Longrightarrow> dict_set d k v = d @ [(k, v)]"
  by (induction d) auto

lemma dict_set_stage:
  "k \<notin> fst ` set d \<Longrightarrow>
     (case x of Some v \<Rightarrow> dict_set d k (g v) | None \<Rightarrow> d)
       = d @ (case x of Some v \<Rightarrow> [(k, g v)] | None \<Rightarrow> [])"
  by (cases x) (simp_all add: dict_set_fresh)

lemma dict_set_stage_tuple:
  "k \<notin> fst ` set d \<Longrightarrow>
     (case x of None \<Rightarrow> d | Some [] \<Rightarrow> d | Some (a # as) \<Rightarrow> dict_set d k (g (a # as)))
       = d @ (case x of None \<Rightarrow> [] | Some [] \<Rightarrow> [] | Some (a # as) \<Rightarrow> [(k, g (a # as))])"
  by (cases x) (simp_all add: dict_set_fresh split: list.splits)

lemma process_args_of_shape:
  "process_args_of env kw
     = [(''reload'', Atom (ABool (kw_reload kw))),
        (''host'', of_str (kw_host kw)),
        (''port'', of_int (kw_port kw)),
        (''workers'', of_int (kw_workers kw)),
        (''factory'', Atom (ABool (env_is_app_factory env)))]
       @ (case kw_fd kw of Some n \<Rightarrow> [(''fd'', Atom (AInt n))] | None \<Rightarrow> [])
       @ (case kw_uds kw of Some u \<Rightarrow> [(''uds'', Atom (AStr u))] | None \<Rightarrow> [])
       @ (case kw_reload_dirs kw of
            None \<Rightarrow> [] | Some [] \<Rightarrow> []
          | Some (d # ds) \<Rightarrow> [(''reload-dir'', Tuple (map AStr (d # ds)))])
       @ (case kw_certfile_path kw of
            Some c \<Rightarrow> [(''ssl-certfile'', Atom (AStr c))] | None \<Rightarrow> [])
       @ (case kw_keyfile_path kw of
            Some k \<Rightarrow> [(''ssl-keyfile'', Atom (AStr k))] | None \<Rightarrow> [])"
proof -
  let ?d0 = "[(''reload'', Atom (ABool (kw_reload kw))),
        (''host'', of_str (kw_host kw)),
        (''port'', of_int (kw_port kw)),
        (''workers'', of_int (kw_workers kw)),
        (''factory'', Atom (ABool (env_is_app_factory env)))]"
  let ?fd = "(case kw_fd kw of Some n \<Rightarrow> [(''fd'', Atom (AInt n))] | None \<Rightarrow> [])"
  let ?uds = "(case kw_uds kw of Some u \<Rightarrow> [(''uds'', Atom (AStr u))] | None \<Rightarrow> [])"
  let ?dirs = "(case kw_reload_dirs kw of
            None \<Rightarrow> [] | Some [] \<Rightarrow> []
          | Some (d # ds) \<Rightarrow> [(''reload-dir'', Tuple (map AStr (d # ds)))])"
  let ?cert = "(case kw_certfile_path kw of
            Some c \<Rightarrow> [(''ssl-certfile'', Atom (AStr c))] | None \<Rightarrow> [])"
  let ?key = "(case kw_keyfile_path kw of
            Some k \<Rightarrow> [(''ssl-keyfile'', Atom (AStr k))] | None \<Rightarrow> [])"
  have s1: "(case kw_fd kw of Some n \<Rightarrow> dict_set ?d0 ''fd'' (Atom (AInt n)) | None \<Rightarrow> ?d0)
              = ?d0 @ ?fd"
    by (rule dict_set_stage) simp
  have s2: "(case kw_uds kw of Some u \<Rightarrow> dict_set (?d0 @ ?fd) ''uds'' (Atom (AStr u))
                             | None \<Rightarrow> ?d0 @ ?fd)
              = (?d0 @ ?fd) @ ?uds"
    by (rule dict_set_stage) (auto split: option.splits list.splits)
  have s3: "(case kw_reload_dirs kw of None \<Rightarrow> (?d0 @ ?fd) @ ?uds
               | Some [] \<Rightarrow> (?d0 @ ?fd) @ ?uds
               | Some (d # ds) \<Rightarrow>
                   dict_set ((?d0 @ ?fd) @ ?uds) ''reload-dir'' (Tuple (map AStr (d # ds))))
              = ((?d0 @ ?fd) @ ?uds) @ ?dirs"
    by (rule dict_set_stage_tuple) (auto split: option.splits list.splits)
  have s4: "(case kw_certfile_path kw of
               Some c \<Rightarrow> dict_set (((?d0 @ ?fd) @ ?uds) @ ?dirs) ''ssl-certfile'' (Atom (AStr c))
             | None \<Rightarrow> ((?d0 @ ?fd) @ ?uds) @ ?dirs)
              = (((?d0 @ ?fd) @ ?uds) @ ?dirs) @ ?cert"
    by (rule dict_set_stage) (auto split: option.splits list.splits)
  have s5: "(case kw_keyfile_path kw of
               Some k \<Rightarrow> dict_set ((((?d0 @ ?fd) @ ?uds) @ ?dirs) @ ?cert) ''ssl-keyfile''
                           (Atom (AStr k))
             | None \<Rightarrow> (((?d0 @ ?fd) @ ?uds) @ ?dirs) @ ?cert)
              = ((((?d0 @ ?fd) @ ?uds) @ ?dirs) @ ?cert) @ ?key"
    by (rule dict_set_stage) (auto split: option.splits list.splits)
  have "process_args_of env kw = ((((?d0 @ ?fd) @ ?uds) @ ?dirs) @ ?cert) @ ?key"
    unfolding process_args_of_def Let_def
    by (simp only: s1 s2 s3 s4 s5)
  then show ?thesis by simp
qed

lemma process_args_of_keys:
  "map fst (process_args_of env kw)
     = [''reload'', ''host'', ''port'', ''workers'', ''factory'']
       @ (case kw_fd kw of Some n \<Rightarrow> [''fd''] | None \<Rightarrow> [])
       @ (case kw_uds kw of Some u \<Rightarrow> [''uds''] | None \<Rightarrow> [])
       @ (case kw_reload_dirs kw of Some (d # ds) \<Rightarrow> [''reload-dir''] | _ \<Rightarrow> [])
       @ (case kw_certfile_path kw of Some c \<Rightarrow> [''ssl-certfile''] | None \<Rightarrow> [])
       @ (case kw_keyfile_path kw of Some k \<Rightarrow> [''ssl-keyfile''] | None \<Rightarrow> [])"
proof -
  have o: "map fst (case x of Some v \<Rightarrow> [(k, g v)] | None \<Rightarrow> [])
             = (case x of Some v \<Rightarrow> [k] | None \<Rightarrow> [])" for x :: "'a option" and k :: string
    and g :: "'a \<Rightarrow> pyval"
    by (cases x) simp_all
  show ?thesis
  proof (cases "kw_reload_dirs kw")
    case None
    then show ?thesis unfolding process_args_of_shape by (simp add: o)
  next
    case (Some dirs)
    then show ?thesis unfolding process_args_of_shape by (cases dirs) (simp_all add: o)
  qed
qed

lemma process_args_of_tokens:
  "convert_uvicorn_args (process_args_of env kw)
     = (if kw_reload kw then [''--reload''] else [])
       @ [''--host='' @ (case kw_host kw of Some h \<Rightarrow> h | None \<Rightarrow> ''None''),
          ''--port='' @ (case kw_port kw of Some n \<Rightarrow> str_int n | None \<Rightarrow> ''None''),
          ''--workers='' @ (case kw_workers kw of Some n \<Rightarrow> str_int n | None \<Rightarrow> ''None'')]
       @ (if env_is_app_factory env then [''--factory''] else [])
       @ (case kw_fd kw of Some n \<Rightarrow> [''--fd='' @ str_int n] | None \<Rightarrow> [])
       @ (case kw_uds kw of Some u \<Rightarrow> [''--uds='' @ u] | None \<Rightarrow> [])
       @ (case kw_reload_dirs kw of
            Some dirs \<Rightarrow> map (\<lambda>d. ''--reload-dir='' @ d) dirs | None \<Rightarrow> [])
       @ (case kw_certfile_path kw of Some c \<Rightarrow> [''--ssl-certfile='' @ c] | None \<Rightarrow> [])
       @ (case kw_keyfile_path kw of Some k \<Rightarrow> [''--ssl-keyfile='' @ k] | None \<Rightarrow> [])"
proof -
  have base: "convert_uvicorn_args
        [(''reload'', Atom (ABool (kw_reload kw))),
         (''host'', of_str (kw_host kw)),
         (''port'', of_int (kw_port kw)),
         (''workers'', of_int (kw_workers kw)),
         (''factory'', Atom (ABool (env_is_app_factory env)))]
      = (if kw_reload kw then [''--reload''] else [])
       @ [''--host='' @ (case kw_host kw of Some h \<Rightarrow> h | None \<Rightarrow> ''None''),
          ''--port='' @ (case kw_port kw of Some n \<Rightarrow> str_int n | None \<Rightarrow> ''None''),
          ''--workers='' @ (case kw_workers kw of Some n \<Rightarrow> str_int n | None \<Rightarrow> ''None'')]
       @ (if env_is_app_factory env then [''--factory''] else [])"
    by (cases "kw_host kw"; cases "kw_port kw"; cases "kw_workers kw")
       (simp_all add: convert_uvicorn_args_def of_str_def of_int_def)
  have fd: "convert_uvicorn_args (case kw_fd kw of Some n \<Rightarrow> [(''fd'', Atom (AInt n))] | None \<Rightarrow> [])
      = (case kw_fd kw of Some n \<Rightarrow> [''--fd='' @ str_int n] | None \<Rightarrow> [])"
    by (cases "kw_fd kw") (simp_all add: convert_uvicorn_args_def)
  have uds: "convert_uvicorn_args (case kw_uds kw of Some u \<Rightarrow> [(''uds'', Atom (AStr u))] | None \<Rightarrow> [])
      = (case kw_uds kw of Some u \<Rightarrow> [''--uds='' @ u] | None \<Rightarrow> [])"
    by (cases "kw_uds kw") (simp_all add: convert_uvicorn_args_def)
  have dirs: "convert_uvicorn_args (case kw_reload_dirs kw of
            None \<Rightarrow> [] | Some [] \<Rightarrow> []
          | Some (d # ds) \<Rightarrow> [(''reload-dir'', Tuple (map AStr (d # ds)))])
      = (case kw_reload_dirs kw of
            Some dirs \<Rightarrow> map (\<lambda>d. ''--reload-dir='' @ d) dirs | None \<Rightarrow> [])"
    by (cases "kw_reload_dirs kw")
       (simp_all add: convert_uvicorn_args_def comp_def split: list.splits)
  have cert: "convert_uvicorn_args (case kw_certfile_path kw of
            Some c \<Rightarrow> [(''ssl-certfile'', Atom (AStr c))] | None \<Rightarrow> [])
      = (case kw_certfile_path kw of Some c \<Rightarrow> [''--ssl-certfile='' @ c] | None \<Rightarrow> [])"
    by (cases "kw_certfile_path kw") (simp_all add: convert_uvicorn_args_def)
  have key: "convert_uvicorn_args (case kw_keyfile_path kw of
            Some k \<Rightarrow> [(''ssl-keyfile'', Atom (AStr k))] | None \<Rightarrow> [])
      = (case kw_keyfile_path kw of Some k \<Rightarrow> [''--ssl-keyfile='' @ k] | None \<Rightarrow> [])"
    by (cases "kw_keyfile_path kw") (simp_all add: convert_uvicorn_args_def)
  show ?thesis
    unfolding process_args_of_shape convert_uvicorn_args_append
    by (simp only: base fd uds dirs cert key append_assoc)
qed

text \<open>
  Claim C7, as amended. The token sequence passed to the child process follows the
  order in which the option mapping was assembled, and that order is \<open>reload\<close>, \<open>host\<close>,
  \<open>port\<close>, \<open>workers\<close>, \<open>factory\<close>, then the conditional extras \<open>fd\<close>, \<open>uds\<close>,
  \<open>reload-dir\<close>, \<open>ssl-certfile\<close>, \<open>ssl-keyfile\<close>.
\<close>

theorem subprocess_tokens_order:
  "snd (run_uvicorn_in_subprocess w env kw)
     = [SubprocessRun ([sys_executable w, ''-m'', ''uvicorn'', env_app_path env]
          @ concat (map spec_tokens (process_args_of env kw)))]
   \<and> map fst (process_args_of env kw)
       = [''reload'', ''host'', ''port'', ''workers'', ''factory'']
         @ (case kw_fd kw of Some n \<Rightarrow> [''fd''] | None \<Rightarrow> [])
         @ (case kw_uds kw of Some u \<Rightarrow> [''uds''] | None \<Rightarrow> [])
         @ (case kw_reload_dirs kw of Some (d # ds) \<Rightarrow> [''reload-dir''] | _ \<Rightarrow> [])
         @ (case kw_certfile_path kw of Some c \<Rightarrow> [''ssl-certfile''] | None \<Rightarrow> [])
         @ (case kw_keyfile_path kw of Some k \<Rightarrow> [''ssl-keyfile''] | None \<Rightarrow> [])
   \<and> concat (map spec_tokens (process_args_of env kw))
       = (if kw_reload kw then [''--reload''] else [])
         @ [''--host='' @ (case kw_host kw of Some h \<Rightarrow> h | None \<Rightarrow> ''None''),
            ''--port='' @ (case kw_port kw of Some n \<Rightarrow> str_int n | None \<Rightarrow> ''None''),
            ''--workers='' @ (case kw_workers kw of Some n \<Rightarrow> str_int n | None \<Rightarrow> ''None'')]
         @ (if env_is_app_factory env then [''--factory''] else [])
         @ (case kw_fd kw of Some n \<Rightarrow> [''--fd='' @ str_int n] | None \<Rightarrow> [])
         @ (case kw_uds kw of Some u \<Rightarrow> [''--uds='' @ u] | None \<Rightarrow> [])
         @ (case kw_reload_dirs kw of
              Some dirs \<Rightarrow> map (\<lambda>d. ''--reload-dir='' @ d) dirs | None \<Rightarrow> [])
         @ (case kw_certfile_path kw of Some c \<Rightarrow> [''--ssl-certfile='' @ c] | None \<Rightarrow> [])
         @ (case kw_keyfile_path kw of Some k \<Rightarrow> [''--ssl-keyfile='' @ k] | None \<Rightarrow> [])"
proof -
  have a: "snd (run_uvicorn_in_subprocess w env kw)
     = [SubprocessRun ([sys_executable w, ''-m'', ''uvicorn'', env_app_path env]
          @ concat (map spec_tokens (process_args_of env kw)))]"
    by (simp add: run_uvicorn_in_subprocess_def subprocess_run_check_def subprocess_command_def
          Let_def convert_uvicorn_args_spec)
  show ?thesis
    using a process_args_of_keys[of env kw] process_args_of_tokens[of env kw]
    unfolding convert_uvicorn_args_spec by blast
qed

theorem subprocess_tokens_order_witness:
  "snd (run_uvicorn_in_subprocess example_world example_env example_kwargs)
     = [SubprocessRun [''python3'', ''-m'', ''uvicorn'', ''app:app'',
          ''--host=127.0.0.1'', ''--port=9000'', ''--workers=4'']]
   \<and> map fst (process_args_of example_env example_kwargs)
       = [''reload'', ''host'', ''port'', ''workers'', ''factory'']"
proof -
  have g: "kw_reload example_kwargs = False" "kw_host example_kwargs = Some ''127.0.0.1''"
    "kw_port example_kwargs = Some 9000" "kw_workers example_kwargs = Some 4"
    "kw_fd example_kwargs = None" "kw_uds example_kwargs = None"
    "kw_reload_dirs example_kwargs = Some []" "kw_certfile_path example_kwargs = None"
    "kw_keyfile_path example_kwargs = None" "env_is_app_factory example_env = False"
    "sys_executable example_world = ''python3''" "env_app_path example_env = ''app:app''"
    by (simp_all add: example_kwargs_def example_defs)
  have n: "str_int 9000 = ''9000''" "str_int 4 = ''4''"
    by (simp_all add: str_int_def str_nat.simps digit_char_def)
  from subprocess_tokens_order[of example_world example_env example_kwargs]
  show ?thesis
    by (simp add: g n)
qed

text \<open>
  With \<open>workers\<close> first the statement fails: for host 127.0.0.1, port 9000 and four
  workers the keys are assembled as \<open>reload\<close>, \<open>host\<close>, \<open>port\<close>, \<open>workers\<close>, \<open>factory\<close>
  and \<^verbatim>\<open>--workers=4\<close> is the last token.
\<close>

theorem workers_not_first_counterexample:
  "map fst (process_args_of example_env example_kwargs)
     = [''reload'', ''host'', ''port'', ''workers'', ''factory'']
   \<and> convert_uvicorn_args (process_args_of example_env example_kwargs)
       = [''--host=127.0.0.1'', ''--port=9000'', ''--workers=4'']
   \<and> take 3 (map fst (process_args_of example_env example_kwargs))
       \<noteq> [''workers'', ''host'', ''port'']"
proof -
  have g: "kw_reload example_kwargs = False" "kw_host example_kwargs = Some ''127.0.0.1''"
    "kw_port example_kwargs = Some 9000" "kw_workers example_kwargs = Some 4"
    "kw_fd example_kwargs = None" "kw_uds example_kwargs = None"
    "kw_reload_dirs example_kwargs = Some []" "kw_certfile_path example_kwargs = None"
    "kw_keyfile_path example_kwargs = None" "env_is_app_factory example_env = False"
    by (simp_all add: example_kwargs_def example_defs)
  have n: "str_int 9000 = ''9000''" "str_int 4 = ''4''"
    by (simp_all add: str_int_def str_nat.simps digit_char_def)
  show ?thesis
    by (simp add: process_args_of_keys process_args_of_tokens g n)
qed

section \<open>Failure of the child process\<close>

lemma exit_callbacks_quiet:
  "\<forall>c \<in> set stack. \<forall>x. cm_exit c x = Returns False \<Longrightarrow>
     fst (exit_callbacks stack exc s p tr) = exc
     \<and> fst (snd (exit_callbacks stack exc s p tr)) = s
     \<and> fst (snd (snd (exit_callbacks stack exc s p tr))) = p"
  by (induction stack arbitrary: tr) simp_all

lemma with_server_lifespan_quiet:
  assumes all: "length (acquired app ms) = length ms"
    and quiet: "\<forall>c \<in> set (acquired app ms). \<forall>x. cm_exit c x = Returns False"
  shows "fst (with_server_lifespan app ms body tr) = fst body"
proof -
  obtain r stack tr1 where en: "enter_managers app ms [] tr = (r, stack, tr1)"
    by (metis prod_cases3)
  from enter_managers_acquired[OF en] all
  have st: "stack = rev (acquired app ms)" and r: "r = None"
    by auto
  from quiet st have q: "\<forall>c \<in> set stack. \<forall>x. cm_exit c x = Returns False"
    by simp
  obtain exc s p t where
    ex: "exit_callbacks stack (fst body) False False (tr1 @ snd body) = (exc, s, p, t)"
    by (metis prod_cases4)
  from exit_callbacks_quiet[OF q, of "fst body" False False "tr1 @ snd body"] ex
  have "exc = fst body" "\<not> s" "\<not> p" by simp_all
  with en r ex show ?thesis
    by (simp add: with_server_lifespan_def ExitStack_exit_def)
qed

text \<open>
  Claim C8. When the child process of the subprocess strategy exits with a non-zero
  status, the strategy fails with the launch error \<open>CalledProcessError\<close> that carries
  the status of the child, and the child is run once: there is no second attempt. The
  same holds of the launch when it takes the subprocess strategy, and of the whole
  supervised launch when every acquired lifespan manager lets the exception pass.
\<close>

theorem child_failure_is_launch_error:
  "(subprocess_returncode w (subprocess_command w env kw) \<noteq> 0 \<longrightarrow>
      run_uvicorn_in_subprocess w env kw
        = (Some (CalledProcessError (subprocess_returncode w (subprocess_command w env kw))
                   (subprocess_command w env kw)),
           [SubprocessRun (subprocess_command w env kw)]))
   \<and> (\<not> (rc_workers cfg = 1 \<and> \<not> rc_reload cfg)
       \<and> subprocess_returncode w (subprocess_command w env (subprocess_kwargs_of cfg c k)) \<noteq> 0
       \<longrightarrow>
         fst (launch w env cfg c k)
           = Some (CalledProcessError
                     (subprocess_returncode w
                        (subprocess_command w env (subprocess_kwargs_of cfg c k)))
                     (subprocess_command w env (subprocess_kwargs_of cfg c k)))
         \<and> server_events (snd (launch w env cfg c k))
             = [SubprocessRun (subprocess_command w env (subprocess_kwargs_of cfg c k))])
   \<and> (fst (tls_paths w (resolve env p)) = Inr (c, k)
       \<and> length (acquired (view_of (env_app env)) (app_server_lifespan_managers (env_app env)))
           = length (app_server_lifespan_managers (env_app env))
       \<and> (\<forall>m \<in> set (acquired (view_of (env_app env))
                          (app_server_lifespan_managers (env_app env))).
             \<forall>x. cm_exit m x = Returns False)
       \<and> \<not> (rc_workers (resolve env p) = 1 \<and> \<not> rc_reload (resolve env p))
       \<and> subprocess_returncode w
            (subprocess_command w env (subprocess_kwargs_of (resolve env p) c k)) \<noteq> 0
       \<longrightarrow>
         raised (serve w e p env [])
           = Some (CalledProcessError
                     (subprocess_returncode w
                        (subprocess_command w env (subprocess_kwargs_of (resolve env p) c k)))
                     (subprocess_command w env (subprocess_kwargs_of (resolve env p) c k)))
         \<and> server_events (trace (serve w e p env []))
             = [SubprocessRun
                  (subprocess_command w env (subprocess_kwargs_of (resolve env p) c k))])"
proof -
  have a: "subprocess_returncode w (subprocess_command w env kw) \<noteq> 0 \<longrightarrow>
      run_uvicorn_in_subprocess w env kw
        = (Some (CalledProcessError (subprocess_returncode w (subprocess_command w env kw))
                   (subprocess_command w env kw)),
           [SubprocessRun (subprocess_command w env kw)])" for kw
    by (simp add: run_uvicorn_in_subprocess_def subprocess_run_check_def Let_def)
  have b: "fst (launch w env cfg' c k)
           = Some (CalledProcessError
                     (subprocess_returncode w
                        (subprocess_command w env (subprocess_kwargs_of cfg' c k)))
                     (subprocess_command w env (subprocess_kwargs_of cfg' c k)))
         \<and> server_events (snd (launch w env cfg' c k))
             = [SubprocessRun (subprocess_command w env (subprocess_kwargs_of cfg' c k))]"
    if "\<not> (rc_workers cfg' = 1 \<and> \<not> rc_reload cfg')"
      "subprocess_returncode w (subprocess_command w env (subprocess_kwargs_of cfg' c k)) \<noteq> 0"
    for cfg'
    using that a[of "subprocess_kwargs_of cfg' c k"]
    by (auto simp: launch_outcome launch_server_events)
  have s: "raised (serve w e p env [])
           = Some (CalledProcessError
                     (subprocess_returncode w
                        (subprocess_command w env (subprocess_kwargs_of (resolve env p) c k)))
                     (subprocess_command w env (subprocess_kwargs_of (resolve env p) c k)))
         \<and> server_events (trace (serve w e p env []))
             = [SubprocessRun
                  (subprocess_command w env (subprocess_kwargs_of (resolve env p) c k))]"
    if t: "fst (tls_paths w (resolve env p)) = Inr (c, k)"
      and all: "length (acquired (view_of (env_app env)) (app_server_lifespan_managers (env_app env)))
           = length (app_server_lifespan_managers (env_app env))"
      and quiet: "\<forall>m \<in> set (acquired (view_of (env_app env))
                          (app_server_lifespan_managers (env_app env))).
             \<forall>x. cm_exit m x = Returns False"
      and sub: "\<not> (rc_workers (resolve env p) = 1 \<and> \<not> rc_reload (resolve env p))"
      and rc: "subprocess_returncode w
            (subprocess_command w env (subprocess_kwargs_of (resolve env p) c k)) \<noteq> 0"
  proof -
    have "raised (serve w e p env [])
            = fst (with_server_lifespan (view_of (env_app env))
                     (app_server_lifespan_managers (env_app env))
                     (launch w env (resolve env p) c k)
                     ([] @ snd (tls_paths w (resolve env p))
                        @ [ConsoleRule ''[yellow]Starting server process'', ShowAppInfo]))"
      using t by (simp add: serve_def Let_def split: prod.splits)
    also have "\<dots> = fst (launch w env (resolve env p) c k)"
      by (rule with_server_lifespan_quiet[OF all quiet])
    finally have r: "raised (serve w e p env []) = fst (launch w env (resolve env p) c k)" .
    have "server_events (trace (serve w e p env []))
            = server_events (snd (launch w env (resolve env p) c k))"
      using t all by (simp add: serve_server_events)
    with r b[OF sub rc] show ?thesis by simp
  qed
  from a[of kw] b[of cfg] s show ?thesis by blast
qed

theorem child_failure_is_launch_error_witness:
  "raised (serve failing_child_world Map.empty four_workers_cli supervised_env [])
     = Some (CalledProcessError 3
          [''python3'', ''-m'', ''uvicorn'', ''app:app'',
           ''--host=127.0.0.1'', ''--port=8000'', ''--workers=4''])
   \<and> server_events (trace (serve failing_child_world Map.empty four_workers_cli supervised_env []))
       = [SubprocessRun
            [''python3'', ''-m'', ''uvicorn'', ''app:app'',
             ''--host=127.0.0.1'', ''--port=8000'', ''--workers=4'']]"
proof -
  let ?w = failing_child_world and ?p = four_workers_cli and ?env = supervised_env
  have cfg: "resolve ?env ?p
      = \<lparr>rc_reload_dirs = [], rc_host = ''127.0.0.1'', rc_port = 8000, rc_fd = None,
         rc_uds = None, rc_reload = False, rc_workers = 4, rc_ssl_certfile = None,
         rc_ssl_keyfile = None, rc_create_self_signed_cert = False\<rparr>"
    by (simp add: resolve_def supervised_env_def four_workers_cli_def example_defs Let_def
          truthy_bool_def truthy_str_def)
  have n: "str_int 8000 = ''8000''" "str_int 4 = ''4''"
    by (simp_all add: str_int_def str_nat.simps digit_char_def)
  have cmd: "subprocess_command ?w ?env (subprocess_kwargs_of (resolve ?env ?p) None None)
      = [''python3'', ''-m'', ''uvicorn'', ''app:app'',
         ''--host=127.0.0.1'', ''--port=8000'', ''--workers=4'']"
    unfolding cfg
    by (simp add: subprocess_command_def process_args_of_tokens subprocess_kwargs_of_def n
          failing_child_world_def supervised_env_def example_defs)
  have t: "fst (tls_paths ?w (resolve ?env ?p)) = Inr (None, None)"
    unfolding cfg by (simp add: tls_paths_def failing_child_world_def example_defs)
  have ms: "app_server_lifespan_managers (env_app ?env) = [ContextManager (quiet_cm 1)]"
    by (simp add: supervised_env_def)
  have acq: "acquired (view_of (env_app ?env)) (app_server_lifespan_managers (env_app ?env))
      = [quiet_cm 1]"
    by (simp add: ms quiet_cm_def)
  have all: "length (acquired (view_of (env_app ?env)) (app_server_lifespan_managers (env_app ?env)))
      = length (app_server_lifespan_managers (env_app ?env))"
    by (simp add: acq) (simp add: ms)
  have quiet: "\<forall>m \<in> set (acquired (view_of (env_app ?env))
                          (app_server_lifespan_managers (env_app ?env))).
             \<forall>x. cm_exit m x = Returns False"
    by (simp add: acq) (simp add: quiet_cm_def)
  have sub: "\<not> (rc_workers (resolve ?env ?p) = 1 \<and> \<not> rc_reload (resolve ?env ?p))"
    unfolding cfg by simp
  have rc: "subprocess_returncode ?w c = 3" for c
    by (simp add: failing_child_world_def)
  from child_failure_is_launch_error
         [of ?w ?env "subprocess_kwargs_of (resolve ?env ?p) None None" "resolve ?env ?p"
             None None ?p Map.empty]
       t all quiet sub
  show ?thesis
    unfolding rc cmd by simp
qed

section \<open>The bind options\<close>

text \<open>
  Claim C4, as amended. The run command makes no check that the bind options exclude
  each other. Whichever of file descriptor, unix socket, host and port are set in the
  resolved configuration, once the TLS helper has returned the paths and every
  lifespan manager is acquired, exactly one server is started and it is given the
  resolved host, port, file descriptor and unix socket together, unchanged: as
  keyword arguments of \<^verbatim>\<open>uvicorn.run\<close> in the direct strategy, as the tokens
  \<^verbatim>\<open>--host=\<close>, \<^verbatim>\<open>--port=\<close> and, when set, \<^verbatim>\<open>--fd=\<close> and \<^verbatim>\<open>--uds=\<close> on the command
  line of the child in the subprocess strategy.
\<close>

theorem bind_options_unchecked:
  "cfg = resolve env p
   \<and> fst (tls_paths w cfg) = Inr (c, k)
   \<and> length (acquired (view_of (env_app env)) (app_server_lifespan_managers (env_app env)))
       = length (app_server_lifespan_managers (env_app env))
   \<longrightarrow>
     server_events (trace (serve w e p env []))
       = (if rc_workers cfg = 1 \<and> \<not> rc_reload cfg
          then [UvicornRun
                  \<lparr>uv_app = env_app_path env, uv_host = rc_host cfg, uv_port = rc_port cfg,
                   uv_fd = rc_fd cfg, uv_uds = rc_uds cfg,
                   uv_factory = env_is_app_factory env,
                   uv_ssl_certfile = c, uv_ssl_keyfile = k\<rparr>]
          else [SubprocessRun
                  ([sys_executable w, ''-m'', ''uvicorn'', env_app_path env]
                   @ (if rc_reload cfg then [''--reload''] else [])
                   @ [''--host='' @ rc_host cfg,
                      ''--port='' @ str_int (rc_port cfg),
                      ''--workers='' @ str_int (rc_workers cfg)]
                   @ (if env_is_app_factory env then [''--factory''] else [])
                   @ (case rc_fd cfg of Some n \<Rightarrow> [''--fd='' @ str_int n] | None \<Rightarrow> [])
                   @ (case rc_uds cfg of Some u \<Rightarrow> [''--uds='' @ u] | None \<Rightarrow> [])
                   @ map (\<lambda>d. ''--reload-dir='' @ d) (rc_reload_dirs cfg)
                   @ (case c of Some x \<Rightarrow> [''--ssl-certfile='' @ x] | None \<Rightarrow> [])
                   @ (case k of Some x \<Rightarrow> [''--ssl-keyfile='' @ x] | None \<Rightarrow> []))])"
proof -
  have cmd: "subprocess_command w env (subprocess_kwargs_of cfg c k)
      = [sys_executable w, ''-m'', ''uvicorn'', env_app_path env]
        @ (if rc_reload cfg then [''--reload''] else [])
        @ [''--host='' @ rc_host cfg,
           ''--port='' @ str_int (rc_port cfg),
           ''--workers='' @ str_int (rc_workers cfg)]
        @ (if env_is_app_factory env then [''--factory''] else [])
        @ (case rc_fd cfg of Some n \<Rightarrow> [''--fd='' @ str_int n] | None \<Rightarrow> [])
        @ (case rc_uds cfg of Some u \<Rightarrow> [''--uds='' @ u] | None \<Rightarrow> [])
        @ map (\<lambda>d. ''--reload-dir='' @ d) (rc_reload_dirs cfg)
        @ (case c of Some x \<Rightarrow> [''--ssl-certfile='' @ x] | None \<Rightarrow> [])
        @ (case k of Some x \<Rightarrow> [''--ssl-keyfile='' @ x] | None \<Rightarrow> [])"
    unfolding subprocess_command_def process_args_of_tokens
    by (simp add: subprocess_kwargs_of_def)
  show ?thesis
  proof (intro impI, elim conjE)
    assume r: "cfg = resolve env p"
      and t: "fst (tls_paths w cfg) = Inr (c, k)"
      and all: "length (acquired (view_of (env_app env))
                          (app_server_lifespan_managers (env_app env)))
                  = length (app_server_lifespan_managers (env_app env))"
    have "server_events (trace (serve w e p env []))
            = server_events (snd (launch w env cfg c k))"
      using t all unfolding r by (simp add: serve_server_events)
    then show "server_events (trace (serve w e p env []))
       = (if rc_workers cfg = 1 \<and> \<not> rc_reload cfg
          then [UvicornRun
                  \<lparr>uv_app = env_app_path env, uv_host = rc_host cfg, uv_port = rc_port cfg,
                   uv_fd = rc_fd cfg, uv_uds = rc_uds cfg,
                   uv_factory = env_is_app_factory env,
                   uv_ssl_certfile = c, uv_ssl_keyfile = k\<rparr>]
          else [SubprocessRun
                  ([sys_executable w, ''-m'', ''uvicorn'', env_app_path env]
                   @ (if rc_reload cfg then [''--reload''] else [])
                   @ [''--host='' @ rc_host cfg,
                      ''--port='' @ str_int (rc_port cfg),
                      ''--workers='' @ str_int (rc_workers cfg)]
                   @ (if env_is_app_factory env then [''--factory''] else [])
                   @ (case rc_fd cfg of Some n \<Rightarrow> [''--fd='' @ str_int n] | None \<Rightarrow> [])
                   @ (case rc_uds cfg of Some u \<Rightarrow> [''--uds='' @ u] | None \<Rightarrow> [])
                   @ map (\<lambda>d. ''--reload-dir='' @ d) (rc_reload_dirs cfg)
                   @ (case c of Some x \<Rightarrow> [''--ssl-certfile='' @ x] | None \<Rightarrow> [])
                   @ (case k of Some x \<Rightarrow> [''--ssl-keyfile='' @ x] | None \<Rightarrow> []))])"
      unfolding cmd[symmetric]
      by (simp add: launch_server_events uvicorn_kwargs_of_def)
  qed
qed

theorem bind_options_unchecked_witness:
  "server_events (trace (serve example_world Map.empty fd_and_uds_cli example_env []))
     = [UvicornRun
          \<lparr>uv_app = ''app:app'', uv_host = ''127.0.0.1'', uv_port = 8000,
           uv_fd = Some 3, uv_uds = Some ''/tmp/app.sock'', uv_factory = False,
           uv_ssl_certfile = None, uv_ssl_keyfile = None\<rparr>]
   \<and> server_events
        (trace (serve example_world Map.empty (fd_and_uds_cli\<lparr>cli_wc := 4\<rparr>) example_env []))
       = [SubprocessRun
            [''python3'', ''-m'', ''uvicorn'', ''app:app'', ''--host=127.0.0.1'',
             ''--port=8000'', ''--workers=4'', ''--fd=3'', ''--uds=/tmp/app.sock'']]"
proof -
  let ?w = example_world and ?env = example_env
  let ?p = fd_and_uds_cli and ?q = "fd_and_uds_cli\<lparr>cli_wc := 4\<rparr>"
  let ?cfg = "\<lparr>rc_reload_dirs = [], rc_host = ''127.0.0.1'', rc_port = 8000, rc_fd = Some 3,
         rc_uds = Some ''/tmp/app.sock'', rc_reload = False, rc_workers = 1,
         rc_ssl_certfile = None, rc_ssl_keyfile = None, rc_create_self_signed_cert = False\<rparr>"
  have cfg: "?cfg = resolve ?env ?p" "?cfg\<lparr>rc_workers := 4\<rparr> = resolve ?env ?q"
    by (simp_all add: resolve_def fd_and_uds_cli_def example_defs Let_def
          truthy_bool_def truthy_str_def)
  have t: "fst (tls_paths ?w ?cfg) = Inr (None, None)"
    "fst (tls_paths ?w (?cfg\<lparr>rc_workers := 4\<rparr>)) = Inr (None, None)"
    by (simp_all add: tls_paths_def example_defs)
  have all: "length (acquired (view_of (env_app ?env)) (app_server_lifespan_managers (env_app ?env)))
      = length (app_server_lifespan_managers (env_app ?env))"
    by (simp add: example_defs)
  have g: "sys_executable ?w = ''python3''" "env_app_path ?env = ''app:app''"
    "env_is_app_factory ?env = False"
    by (simp_all add: example_defs)
  have n: "str_int 8000 = ''8000''" "str_int 4 = ''4''" "str_int 3 = ''3''"
    by (simp_all add: str_int_def str_nat.simps digit_char_def)
  have f: "rc_workers ?cfg = 1 \<and> \<not> rc_reload ?cfg"
    "\<not> (rc_workers (?cfg\<lparr>rc_workers := 4\<rparr>) = 1 \<and> \<not> rc_reload (?cfg\<lparr>rc_workers := 4\<rparr>))"
    by simp_all
  from bind_options_unchecked
         [of ?cfg ?env ?p ?w None None Map.empty, THEN mp, OF conjI[OF cfg(1) conjI[OF t(1) all]]]
  have a: "server_events (trace (serve ?w Map.empty ?p ?env []))
     = [UvicornRun
          \<lparr>uv_app = ''app:app'', uv_host = ''127.0.0.1'', uv_port = 8000,
           uv_fd = Some 3, uv_uds = Some ''/tmp/app.sock'', uv_factory = False,
           uv_ssl_certfile = None, uv_ssl_keyfile = None\<rparr>]"
    unfolding if_P[OF f(1)] by (simp add: g)
  from bind_options_unchecked
         [of "?cfg\<lparr>rc_workers := 4\<rparr>" ?env ?q ?w None None Map.empty, THEN mp,
          OF conjI[OF cfg(2) conjI[OF t(2) all]]]
  have b: "server_events (trace (serve ?w Map.empty ?q ?env []))
       = [SubprocessRun
            [''python3'', ''-m'', ''uvicorn'', ''app:app'', ''--host=127.0.0.1'',
             ''--port=8000'', ''--workers=4'', ''--fd=3'', ''--uds=/tmp/app.sock'']]"
    unfolding if_not_P[OF f(2)] by (simp add: g n)
  from a b show ?thesis by blast
qed

text \<open>
  With a configuration error for bind options set together the statement fails: for
  \<^verbatim>\<open>--fd 3 --uds /tmp/app.sock\<close> (and the default host and port) the command returns
  normally after \<^verbatim>\<open>uvicorn.run\<close> was called with all of them.
\<close>

theorem fd_and_uds_together_counterexample:
  "rc_fd (resolve example_env fd_and_uds_cli) = Some 3
   \<and> rc_uds (resolve example_env fd_and_uds_cli) = Some ''/tmp/app.sock''
   \<and> rc_host (resolve example_env fd_and_uds_cli) = ''127.0.0.1''
   \<and> raised (run_command example_world fd_and_uds_cli (Resolved example_env)) = None
   \<and> server_events (trace (run_command example_world fd_and_uds_cli (Resolved example_env)))
       = [UvicornRun
            \<lparr>uv_app = ''app:app'', uv_host = ''127.0.0.1'', uv_port = 8000,
             uv_fd = Some 3, uv_uds = Some ''/tmp/app.sock'', uv_factory = False,
             uv_ssl_certfile = None, uv_ssl_keyfile = None\<rparr>]"
proof -
  have cfg: "resolve example_env fd_and_uds_cli
      = \<lparr>rc_reload_dirs = [], rc_host = ''127.0.0.1'', rc_port = 8000, rc_fd = Some 3,
         rc_uds = Some ''/tmp/app.sock'', rc_reload = False, rc_workers = 1,
         rc_ssl_certfile = None, rc_ssl_keyfile = None, rc_create_self_signed_cert = False\<rparr>"
    by (simp add: resolve_def fd_and_uds_cli_def example_defs Let_def
          truthy_bool_def truthy_str_def)
  have e: "example_env\<lparr>env_app := env_app example_env\<rparr> = example_env"
    by simp
  have g: "UVICORN_INSTALLED example_world" "\<not> cli_debug fd_and_uds_cli"
    "\<not> cli_pdb fd_and_uds_cli"
    by (simp_all add: fd_and_uds_cli_def example_defs)
  have r: "run_command example_world fd_and_uds_cli (Resolved example_env)
      = serve example_world (environ example_world) fd_and_uds_cli example_env []"
    by (simp add: run_command_def Let_def g e)
  have s: "serve example_world (environ example_world) fd_and_uds_cli example_env []
      = \<lparr>raised = None, environ_after = environ example_world,
         obj_after = Resolved example_env,
         trace = [ValidateSslFilePaths None None,
                  ConsoleRule ''[yellow]Starting server process'', ShowAppInfo,
                  UvicornRun
                    \<lparr>uv_app = ''app:app'', uv_host = ''127.0.0.1'', uv_port = 8000,
                     uv_fd = Some 3, uv_uds = Some ''/tmp/app.sock'', uv_factory = False,
                     uv_ssl_certfile = None, uv_ssl_keyfile = None\<rparr>]\<rparr>"
    unfolding serve_def cfg
    by (simp add: tls_paths_def with_server_lifespan_def ExitStack_exit_def launch_def
          uvicorn_kwargs_of_def view_of_def example_defs Let_def)
  show ?thesis
    unfolding r s using cfg by (simp add: server_events_def)
qed

end
